theory Spec2Isabelle
  imports Main "HOL-Library.Word" "HOL-Library.Multiset"
begin

section \<open>The consensus-layer mock (CLMocker) of the engine simulator\<close>

text \<open>
  A shallow embedding of the Go type \<^verbatim>\<open>CLMocker\<close> and of its methods. The
  orchestrator's fields form a record that every method takes and returns. Everything
  outside the orchestrator (the execution clients behind the RPC calls and the global
  \<^verbatim>\<open>math/rand\<close> source) is an environment: a record of functions that give the
  answer of a call from the calls made so far. The list of calls made so far, in the
  order they were made, is threaded through every method, so that a statement about the
  order of calls is a statement about that list.

  Left out: waiting on the six rendezvous mutexes and on \<^verbatim>\<open>EngineClientsLock\<close> (the
  model runs one method at a time, from beginning to end), the contexts passed to the
  RPC calls, and the logging calls \<^verbatim>\<open>Logf\<close> and \<^verbatim>\<open>Errorf\<close>, which change no
  field of the orchestrator. \<^verbatim>\<open>Fatalf\<close> ends the calling goroutine; it is the result
  \<open>Fatalf\<close> below. Whether a mutex is locked is no part of the state either. One
  outcome does not depend on it: the last branch of \<^verbatim>\<open>minePOSBlock\<close> unlocks the same
  mutex twice in a row, see \<open>finishCycle\<close>.
\<close>

subsection \<open>Data\<close>

type_synonym hash = "256 word"      \<comment> \<open>\<^verbatim>\<open>common.Hash\<close>, 32 bytes\<close>
type_synonym address = "160 word"   \<comment> \<open>\<^verbatim>\<open>common.Address\<close>, 20 bytes\<close>
type_synonym u64 = "64 word"        \<comment> \<open>\<^verbatim>\<open>uint64\<close>\<close>
type_synonym err = string           \<comment> \<open>a non-nil \<^verbatim>\<open>error\<close>\<close>
type_synonym EngineClient = nat     \<comment> \<open>\<^verbatim>\<open>*EngineClient\<close>: the pointer, compared by \<^verbatim>\<open>==\<close>\<close>
type_synonym Transaction = nat      \<comment> \<open>\<^verbatim>\<open>*types.Transaction\<close>, opaque here\<close>
type_synonym PayloadID = nat        \<comment> \<open>the payload identifier of a build request, opaque here\<close>

text \<open>The fields of \<^verbatim>\<open>types.Header\<close> that the mock reads; \<open>Hash\<close> is its method.\<close>

record Header =
  Number :: int
  Time :: u64
  Hash :: hash

text \<open>
  \<^verbatim>\<open>Hash\<close> called through a \<^verbatim>\<open>*types.Header\<close> that may be nil. The method hashes
  the RLP encoding of its receiver and does not read a field, so a nil receiver is no
  nil dereference: a nil pointer encodes as the empty list, the byte \<^verbatim>\<open>0xc0\<close>, and
  the result is the Keccak-256 hash of that byte.
\<close>

definition nilHeaderHash :: hash where
  "nilHeaderHash = 0x1dcc4de8dec75d7aab85b567b6ccd41ad312451b948a7413f0a142fd40d49347"

fun HeaderHash :: "Header option \<Rightarrow> hash" where
  "HeaderHash None = nilHeaderHash"
| "HeaderHash (Some h) = Hash h"

text \<open>The fields of \<^verbatim>\<open>catalyst.ExecutableDataV1\<close> that the mock reads
  (\<open>PayloadNumber\<close> is its field \<^verbatim>\<open>Number\<close>).\<close>

record ExecutableDataV1 =
  PayloadNumber :: u64
  BlockHash :: hash

record ForkchoiceStateV1 =
  HeadBlockHash :: hash
  SafeBlockHash :: hash
  FinalizedBlockHash :: hash

record PayloadAttributesV1 =
  Timestamp :: u64
  Random :: hash
  SuggestedFeeRecipient :: address

record ForkChoiceResponse =
  Status :: string
  PayloadID :: "PayloadID option"

record ExecutePayloadResponse =
  ExecStatus :: string
  LatestValidHash :: hash

record ExecutePayloadOutcome =
  ExecutePayloadResponse :: "ExecutePayloadResponse option"
  ExecError :: "err option"

record ForkChoiceOutcome =
  ForkchoiceResponse :: "ForkChoiceResponse option"
  Error :: "err option"

record CLMocker =
  EngineClients :: "EngineClient list"
  NextBlockProducer :: "EngineClient option"
  BlockProductionMustStop :: bool
  NextFeeRecipient :: address
  RandomHistory :: "u64 \<rightharpoonup> hash"
  ExecutedPayloadHistory :: "u64 \<rightharpoonup> ExecutableDataV1"
  LatestFinalizedNumber :: "int option"
  LatestFinalizedHeader :: "Header option"
  LatestPayloadBuilt :: ExecutableDataV1
  LatestExecutedPayload :: ExecutableDataV1
  LatestForkchoice :: ForkchoiceStateV1
  FirstPoSBlockNumber :: "int option"
  TTDReached :: bool
  PoSBlockProductionActivated :: bool

subsection \<open>Calls leaving the orchestrator\<close>

datatype event =
    RandIntn nat
  | RandRead
  | CallTotalDifficulty EngineClient
  | CallBlockNumber EngineClient
  | CallHeaderByNumber EngineClient "int option"
  | CallForkchoiceUpdatedV1 EngineClient ForkchoiceStateV1 "PayloadAttributesV1 option"
  | CallGetPayloadV1 EngineClient "PayloadID option"
  | CallExecutePayloadV1 EngineClient ExecutableDataV1
  | CallSendTransaction EngineClient Transaction
  | CallSwitchProtocol EngineClient

type_synonym trace = "event list"

text \<open>
  The environment. Each function takes the calls made before this one. \<open>randDraw\<close> is the raw
  value behind \<^verbatim>\<open>rand.Intn\<close>, \<open>randBytes\<close> the 32 bytes \<^verbatim>\<open>rand.Read\<close> writes.
  \<open>TotalDifficulty\<close> is the \<^verbatim>\<open>eth_getBlockByNumber\<close> call of \<^verbatim>\<open>checkTTD\<close>:
  \<open>Inr None\<close> is a call without error that leaves the \<^verbatim>\<open>totalDifficulty\<close> pointer nil.
  \<open>HeaderByNumber\<close> follows \<^verbatim>\<open>ethclient\<close>: a header exactly when there is no error.
  \<open>GetPayloadV1\<close> returns Go's pair, since the mock stores the value before it looks at
  the error. \<open>terminalTotalDifficulty\<close> is the package variable of that name and
  \<open>Equals\<close> the method \<^verbatim>\<open>EngineClient.Equals\<close>, both declared outside these files.
\<close>

record env =
  randDraw :: "trace \<Rightarrow> nat"
  randBytes :: "trace \<Rightarrow> hash"
  TotalDifficulty :: "trace \<Rightarrow> EngineClient \<Rightarrow> err + int option"
  BlockNumber :: "trace \<Rightarrow> EngineClient \<Rightarrow> err + u64"
  HeaderByNumber :: "trace \<Rightarrow> EngineClient \<Rightarrow> int option \<Rightarrow> err + Header"
  EngineForkchoiceUpdatedV1 ::
    "trace \<Rightarrow> EngineClient \<Rightarrow> ForkchoiceStateV1 \<Rightarrow> PayloadAttributesV1 option
      \<Rightarrow> err + ForkChoiceResponse"
  EngineGetPayloadV1 :: "trace \<Rightarrow> EngineClient \<Rightarrow> PayloadID option \<Rightarrow> ExecutableDataV1 \<times> err option"
  EngineExecutePayloadV1 :: "trace \<Rightarrow> EngineClient \<Rightarrow> ExecutableDataV1 \<Rightarrow> err + ExecutePayloadResponse"
  SendTransaction :: "trace \<Rightarrow> EngineClient \<Rightarrow> Transaction \<Rightarrow> err option"
  Equals :: "EngineClient \<Rightarrow> EngineClient \<Rightarrow> bool"
  terminalTotalDifficulty :: int

text \<open>How a method ends when it does not return normally. \<open>FatalUnlock\<close> is the fatal
  error of the Go runtime for unlocking a mutex that is not locked.\<close>

datatype abort = Fatalf | PanicIntn | PanicIndex | PanicNil | FatalUnlock | OutOfFuel

text \<open>The timer a method sets before it returns (\<^verbatim>\<open>time.AfterFunc\<close>).\<close>

datatype timer = TimerCheckTTD | TimerMinePOSBlock

text \<open>\<^verbatim>\<open>rand.Intn(n)\<close>: a value in \<open>[0, n)\<close>; it panics when \<open>n \<le> 0\<close>.\<close>

definition Intn :: "env \<Rightarrow> trace \<Rightarrow> nat \<Rightarrow> nat option" where
  "Intn R t n = (if n = 0 then None else Some (randDraw R t mod n))"

text \<open>\<^verbatim>\<open>big.Int.Uint64\<close> (the low 64 bits of the magnitude) and the conversion
  \<^verbatim>\<open>big.NewInt(int64(x))\<close> of a \<^verbatim>\<open>uint64\<close>.\<close>

definition Uint64 :: "int \<Rightarrow> u64" where
  "Uint64 x = word_of_int \<bar>x\<bar>"

definition NewInt_int64 :: "u64 \<Rightarrow> int" where
  "NewInt_int64 x = sint x"

subsection \<open>Construction and the client registry\<close>

text \<open>\<^verbatim>\<open>NewCLMocker\<close> returns the orchestrator below; it also seeds the random source
  and sets the timer for the first tick of \<^verbatim>\<open>checkTTD\<close>.\<close>

definition zeroPayload :: ExecutableDataV1 where
  "zeroPayload = \<lparr>PayloadNumber = 0, BlockHash = 0\<rparr>"

definition NewCLMocker :: CLMocker where
  "NewCLMocker =
     \<lparr>EngineClients = [],
      NextBlockProducer = None,
      BlockProductionMustStop = False,
      NextFeeRecipient = 0,
      RandomHistory = Map.empty,
      ExecutedPayloadHistory = Map.empty,
      LatestFinalizedNumber = None,
      LatestFinalizedHeader = None,
      LatestPayloadBuilt = zeroPayload,
      LatestExecutedPayload = zeroPayload,
      LatestForkchoice = \<lparr>HeadBlockHash = 0, SafeBlockHash = 0, FinalizedBlockHash = 0\<rparr>,
      FirstPoSBlockNumber = None,
      TTDReached = False,
      PoSBlockProductionActivated = False\<rparr>"

definition AddEngineClient :: "CLMocker \<Rightarrow> EngineClient \<Rightarrow> CLMocker" where
  "AddEngineClient cl newEngineClient =
     cl\<lparr>EngineClients := EngineClients cl @ [newEngineClient]\<rparr>"

text \<open>The search loop of \<^verbatim>\<open>RemoveEngineClient\<close>: \<open>j\<close> runs up from its start, and the
  result is the first index holding the handle, or \<open>-1\<close>.\<close>

function findClient :: "EngineClient list \<Rightarrow> EngineClient \<Rightarrow> nat \<Rightarrow> int" where
  "findClient cs removeEngineClient j =
     (if j < length cs
      then (if cs ! j = removeEngineClient then int j
            else findClient cs removeEngineClient (Suc j))
      else -1)"
  by pat_completeness auto
termination
  by (relation "measure (\<lambda>(cs, c, j). length cs - j)") auto

declare findClient.simps [simp del]

definition RemoveEngineClient :: "CLMocker \<Rightarrow> EngineClient \<Rightarrow> CLMocker" where
  "RemoveEngineClient cl removeEngineClient =
     (let i = findClient (EngineClients cl) removeEngineClient 0
      in if i \<ge> 0
         then (let cs = (EngineClients cl)[nat i := EngineClients cl ! (length (EngineClients cl) - 1)]
               in cl\<lparr>EngineClients := take (length cs - 1) cs\<rparr>)
         else cl)"

subsection \<open>The payload broadcaster\<close>

text \<open>
  \<^verbatim>\<open>broadcastExecutePayload\<close> allocates one outcome per client and then walks the
  client list; \<open>i\<close> is the loop index and \<open>responses\<close> the slice being filled.
\<close>

fun broadcastExecutePayload_loop ::
  "env \<Rightarrow> ExecutableDataV1 \<Rightarrow> EngineClient list \<Rightarrow> nat \<Rightarrow> trace
    \<Rightarrow> ExecutePayloadOutcome list \<Rightarrow> trace \<times> ExecutePayloadOutcome list" where
  "broadcastExecutePayload_loop R payload [] i t responses = (t, responses)"
| "broadcastExecutePayload_loop R payload (ec # ecs) i t responses =
     (case EngineExecutePayloadV1 R t ec payload of
        Inl e \<Rightarrow>
          broadcastExecutePayload_loop R payload ecs (Suc i) (t @ [CallExecutePayloadV1 ec payload])
            (responses[i := (responses ! i)\<lparr>ExecError := Some e\<rparr>])
      | Inr execPayloadResp \<Rightarrow>
          broadcastExecutePayload_loop R payload ecs (Suc i) (t @ [CallExecutePayloadV1 ec payload])
            (responses[i := (responses ! i)\<lparr>ExecutePayloadResponse := Some execPayloadResp\<rparr>]))"

definition broadcastExecutePayload ::
  "env \<Rightarrow> trace \<Rightarrow> CLMocker \<Rightarrow> ExecutableDataV1 \<Rightarrow> trace \<times> ExecutePayloadOutcome list" where
  "broadcastExecutePayload R t cl payload =
     broadcastExecutePayload_loop R payload (EngineClients cl) 0 t
       (replicate (length (EngineClients cl))
          \<lparr>ExecutePayloadResponse = None, ExecError = None\<rparr>)"

fun broadcastForkchoiceUpdated_loop ::
  "env \<Rightarrow> ForkchoiceStateV1 \<Rightarrow> PayloadAttributesV1 option \<Rightarrow> EngineClient list \<Rightarrow> nat \<Rightarrow> trace
    \<Rightarrow> ForkChoiceOutcome list \<Rightarrow> trace \<times> ForkChoiceOutcome list" where
  "broadcastForkchoiceUpdated_loop R fcstate payloadAttr [] i t responses = (t, responses)"
| "broadcastForkchoiceUpdated_loop R fcstate payloadAttr (ec # ecs) i t responses =
     (case EngineForkchoiceUpdatedV1 R t ec fcstate payloadAttr of
        Inl e \<Rightarrow>
          broadcastForkchoiceUpdated_loop R fcstate payloadAttr ecs (Suc i)
            (t @ [CallForkchoiceUpdatedV1 ec fcstate payloadAttr])
            (responses[i := (responses ! i)\<lparr>Error := Some e\<rparr>])
      | Inr fcUpdatedResp \<Rightarrow>
          broadcastForkchoiceUpdated_loop R fcstate payloadAttr ecs (Suc i)
            (t @ [CallForkchoiceUpdatedV1 ec fcstate payloadAttr])
            (responses[i := (responses ! i)\<lparr>ForkchoiceResponse := Some fcUpdatedResp\<rparr>]))"

definition broadcastForkchoiceUpdated ::
  "env \<Rightarrow> trace \<Rightarrow> CLMocker \<Rightarrow> ForkchoiceStateV1 \<Rightarrow> PayloadAttributesV1 option
    \<Rightarrow> trace \<times> ForkChoiceOutcome list" where
  "broadcastForkchoiceUpdated R t cl fcstate payloadAttr =
     broadcastForkchoiceUpdated_loop R fcstate payloadAttr (EngineClients cl) 0 t
       (replicate (length (EngineClients cl))
          \<lparr>ForkchoiceResponse = None, Error = None\<rparr>)"

subsection \<open>The terminal-condition detector\<close>

definition checkTTD :: "env \<Rightarrow> trace \<Rightarrow> CLMocker \<Rightarrow> trace \<times> CLMocker \<times> (abort + timer)" where
  "checkTTD R t cl =
     (if length (EngineClients cl) = 0 then (t, cl, Inr TimerCheckTTD)
      else
        case Intn R t (length (EngineClients cl)) of
          None \<Rightarrow> (t, cl, Inl PanicIntn)
        | Some k \<Rightarrow>
            if \<not> k < length (EngineClients cl) then (t, cl, Inl PanicIndex)
            else
              let ec = EngineClients cl ! k;
                  t1 = t @ [RandIntn (length (EngineClients cl))];
                  t2 = t1 @ [CallTotalDifficulty ec]
              in (case TotalDifficulty R t1 ec of
                   Inl e \<Rightarrow> (t2, cl, Inl Fatalf)
                 | Inr None \<Rightarrow> (t2, cl, Inl PanicNil)
                 | Inr (Some td) \<Rightarrow>
                     if td \<ge> terminalTotalDifficulty R then
                       let cl1 = cl\<lparr>TTDReached := True\<rparr>;
                           t3 = t2 @ [CallHeaderByNumber ec None]
                       in (case HeaderByNumber R t2 ec None of
                             Inl e \<Rightarrow> (t3, cl1\<lparr>LatestFinalizedHeader := None\<rparr>, Inl Fatalf)
                           | Inr h \<Rightarrow>
                               let cl2 = cl1\<lparr>LatestFinalizedHeader := Some h\<rparr>;
                                   cl3 = cl2\<lparr>LatestForkchoice :=
                                           (LatestForkchoice cl2)\<lparr>HeadBlockHash := Hash h\<rparr>\<rparr>;
                                   cl4 = cl3\<lparr>LatestForkchoice :=
                                           (LatestForkchoice cl3)\<lparr>SafeBlockHash := Hash h\<rparr>\<rparr>;
                                   cl5 = cl4\<lparr>LatestForkchoice :=
                                           (LatestForkchoice cl4)\<lparr>FinalizedBlockHash := Hash h\<rparr>\<rparr>;
                                   t4 = fst (broadcastForkchoiceUpdated R t3 cl5 (LatestForkchoice cl5) None)
                               in (t4, cl5, Inr TimerMinePOSBlock))
                     else (t2, cl, Inr TimerCheckTTD)))"

subsection \<open>Block production\<close>

definition stopPoSBlockProduction :: "CLMocker \<Rightarrow> CLMocker" where
  "stopPoSBlockProduction cl = cl\<lparr>BlockProductionMustStop := True\<rparr>"

definition isBlockPoS :: "CLMocker \<Rightarrow> int \<Rightarrow> bool" where
  "isBlockPoS cl bn =
     (if FirstPoSBlockNumber cl = None \<or> the (FirstPoSBlockNumber cl) > bn then False else True)"

text \<open>
  \<^verbatim>\<open>setNextFeeRecipient\<close>, one turn of its \<^verbatim>\<open>for\<close> loop. A turn whose condition
  fails releases the mutex, sleeps and starts over; the fields it waits on are changed
  by other goroutines in the meantime, so the model ends the turn with \<open>KeepTrying\<close> and
  the caller takes the next turn in a later state. \<open>FeeReturned\<close> carries the pair
  that the function returns.
\<close>

datatype fee_end = KeepTrying | FeeReturned "err + int"

definition setNextFeeRecipient ::
  "env \<Rightarrow> trace \<Rightarrow> CLMocker \<Rightarrow> address \<Rightarrow> EngineClient option \<Rightarrow> Transaction option
    \<Rightarrow> trace \<times> CLMocker \<times> (abort + fee_end)" where
  "setNextFeeRecipient R t cl feeRecipient ec tx =
     (if ec = None \<or> (NextBlockProducer cl \<noteq> None \<and> Equals R (the (NextBlockProducer cl)) (the ec))
      then
        let cl1 = cl\<lparr>NextFeeRecipient := feeRecipient\<rparr>;
            number = (case LatestFinalizedNumber cl1 of
                        None \<Rightarrow> Inl PanicNil
                      | Some n \<Rightarrow> Inr (FeeReturned (Inr (sint ((word_of_int n :: u64) + 1)))))
        in case tx of
             None \<Rightarrow> (t, cl1, number)
           | Some x \<Rightarrow>
               (case ec of
                  None \<Rightarrow> (t, cl1, Inl PanicNil)
                | Some c \<Rightarrow>
                    (case SendTransaction R t c x of
                       Some e \<Rightarrow> (t @ [CallSendTransaction c x], cl1, Inr (FeeReturned (Inl e)))
                     | None \<Rightarrow> (t @ [CallSendTransaction c x], cl1, number)))
      else (t, cl, Inr KeepTrying))"

text \<open>
  \<^verbatim>\<open>minePOSBlock\<close>, lines 225 to 258: the proposer-selection loop. The Go loop has no
  bound; \<open>fuel\<close> bounds the number of draws, and running out is the result
  \<open>OutOfFuel\<close>. The loop returns \<^verbatim>\<open>lastBlockNumber\<close>.

  Line 251 calls \<^verbatim>\<open>Hash\<close> through \<open>LatestFinalizedHeader\<close>, which may be nil: the
  comparison is then with \<open>nilHeaderHash\<close>, and the loop goes on as for any other
  mismatch.
\<close>

fun selectProposer :: "env \<Rightarrow> nat \<Rightarrow> trace \<Rightarrow> CLMocker \<Rightarrow> trace \<times> CLMocker \<times> (abort + u64)" where
  "selectProposer R 0 t cl = (t, cl, Inl OutOfFuel)"
| "selectProposer R (Suc fuel) t cl =
     (case Intn R t (length (EngineClients cl)) of
        None \<Rightarrow> (t, cl, Inl PanicIntn)
      | Some ec_id \<Rightarrow>
          if \<not> ec_id < length (EngineClients cl) then (t, cl, Inl PanicIndex)
          else
            let t1 = t @ [RandIntn (length (EngineClients cl))];
                cl1 = cl\<lparr>NextBlockProducer := Some (EngineClients cl ! ec_id)\<rparr>;
                p = EngineClients cl ! ec_id;
                t2 = t1 @ [CallBlockNumber p]
            in (case BlockNumber R t1 p of
                 Inl e \<Rightarrow> (t2, cl1, Inl Fatalf)
               | Inr lastBlockNumber \<Rightarrow>
                   let lastBlockNumberBig = NewInt_int64 lastBlockNumber
                   in if LatestFinalizedNumber cl1 \<noteq> None
                         \<and> the (LatestFinalizedNumber cl1) \<noteq> lastBlockNumberBig
                      then selectProposer R fuel t2 cl1
                      else
                        let t3 = t2 @ [CallHeaderByNumber p (Some lastBlockNumberBig)]
                        in (case HeaderByNumber R t2 p (Some lastBlockNumberBig) of
                              Inl e \<Rightarrow> (t3, cl1, Inl Fatalf)
                            | Inr latestHeader \<Rightarrow>
                                if HeaderHash (LatestFinalizedHeader cl1) \<noteq> Hash latestHeader
                                then selectProposer R fuel t3 cl1
                                else (t3, cl1, Inr lastBlockNumber))))"

text \<open>Lines 263 to 286: the payload attributes, the build request to the proposer and
  the retrieval of the payload. Returns \<^verbatim>\<open>nextRandom\<close>.\<close>

definition requestBuild :: "env \<Rightarrow> trace \<Rightarrow> CLMocker \<Rightarrow> trace \<times> CLMocker \<times> (abort + hash)" where
  "requestBuild R t cl =
     (let nextRandom = randBytes R t;
          t1 = t @ [RandRead]
      in case LatestFinalizedHeader cl of
           None \<Rightarrow> (t1, cl, Inl PanicNil)
         | Some lfh \<Rightarrow>
             let payloadAttributes =
                   \<lparr>Timestamp = Time lfh + 1,
                    Random = nextRandom,
                    SuggestedFeeRecipient = NextFeeRecipient cl\<rparr>
             in (case NextBlockProducer cl of
                   None \<Rightarrow> (t1, cl, Inl PanicNil)
                 | Some p \<Rightarrow>
                     let t2 = t1 @ [CallForkchoiceUpdatedV1 p (LatestForkchoice cl) (Some payloadAttributes)]
                     in (case EngineForkchoiceUpdatedV1 R t1 p (LatestForkchoice cl) (Some payloadAttributes) of
                           Inl e \<Rightarrow> (t2, cl, Inl Fatalf)
                         | Inr resp \<Rightarrow>
                             let t3 = t2 @ [CallGetPayloadV1 p (PayloadID resp)];
                                 got = EngineGetPayloadV1 R t2 p (PayloadID resp);
                                 cl1 = cl\<lparr>LatestPayloadBuilt := fst got\<rparr>
                             in (case snd got of
                                   Some e \<Rightarrow> (t3, cl1, Inl Fatalf)
                                 | None \<Rightarrow> (t3, cl1, Inr nextRandom)))))"

text \<open>Lines 292 to 342: the payload goes to every client, then the three forkchoice
  broadcasts.\<close>

definition executeAndForkchoice :: "env \<Rightarrow> trace \<Rightarrow> CLMocker \<Rightarrow> trace \<times> CLMocker" where
  "executeAndForkchoice R t cl =
     (let t1 = fst (broadcastExecutePayload R t cl (LatestPayloadBuilt cl));
          cl1 = cl\<lparr>LatestExecutedPayload := LatestPayloadBuilt cl\<rparr>;
          cl2 = cl1\<lparr>ExecutedPayloadHistory :=
                  (ExecutedPayloadHistory cl1)
                    (PayloadNumber (LatestPayloadBuilt cl1) \<mapsto> LatestPayloadBuilt cl1)\<rparr>;
          cl3 = cl2\<lparr>LatestForkchoice :=
                  (LatestForkchoice cl2)\<lparr>HeadBlockHash := BlockHash (LatestPayloadBuilt cl2)\<rparr>\<rparr>;
          t2 = fst (broadcastForkchoiceUpdated R t1 cl3 (LatestForkchoice cl3) None);
          cl4 = cl3\<lparr>LatestForkchoice :=
                  (LatestForkchoice cl3)\<lparr>SafeBlockHash := BlockHash (LatestPayloadBuilt cl3)\<rparr>\<rparr>;
          t3 = fst (broadcastForkchoiceUpdated R t2 cl4 (LatestForkchoice cl4) None);
          cl5 = cl4\<lparr>LatestForkchoice :=
                  (LatestForkchoice cl4)\<lparr>FinalizedBlockHash := BlockHash (LatestPayloadBuilt cl4)\<rparr>\<rparr>;
          t4 = fst (broadcastForkchoiceUpdated R t3 cl5 (LatestForkchoice cl5) None)
      in (t4, cl5))"

text \<open>Lines 357 to 363: the first client that returns the header of the new height.\<close>

fun scanHeaders :: "env \<Rightarrow> trace \<Rightarrow> EngineClient list \<Rightarrow> int option \<Rightarrow> trace \<times> Header option" where
  "scanHeaders R t [] n = (t, None)"
| "scanHeaders R t (ec # ecs) n =
     (case HeaderByNumber R t ec n of
        Inr newHeader \<Rightarrow> (t @ [CallHeaderByNumber ec n], Some newHeader)
      | Inl e \<Rightarrow> scanHeaders R (t @ [CallHeaderByNumber ec n]) ecs n)"

text \<open>
  Lines 344 to 385: bookkeeping, the check that some client has the new block, the
  transport switch and the next timer. Line 345 reads the field \<^verbatim>\<open>Number\<close> through
  \<open>LatestFinalizedHeader\<close>; through a nil pointer that is a nil dereference.

  The last branch: line 375 unlocks \<^verbatim>\<open>NewFinalizedBlockForkchoiceMutex\<close>. With the
  stop flag down the mutex is locked again and the next cycle is scheduled. With the
  stop flag up \<^verbatim>\<open>unlockAll\<close> unlocks all six mutexes, this one a second time with
  nothing in between, and the runtime ends the program: \<open>FatalUnlock\<close>.
\<close>

definition finishCycle ::
  "env \<Rightarrow> trace \<Rightarrow> CLMocker \<Rightarrow> hash \<Rightarrow> u64 \<Rightarrow> trace \<times> CLMocker \<times> (abort + timer)" where
  "finishCycle R t cl nextRandom lastBlockNumber =
     (case LatestFinalizedHeader cl of
        None \<Rightarrow> (t, cl, Inl PanicNil)
      | Some lfh \<Rightarrow>
          let cl1 = cl\<lparr>RandomHistory := (RandomHistory cl)(Uint64 (Number lfh) + 1 \<mapsto> nextRandom)\<rparr>;
              cl2 = (if FirstPoSBlockNumber cl1 = None
                     then cl1\<lparr>FirstPoSBlockNumber := Some (NewInt_int64 (Uint64 (Number lfh) + 1))\<rparr>
                     else cl1);
              cl3 = cl2\<lparr>LatestFinalizedNumber := Some (NewInt_int64 (lastBlockNumber + 1))\<rparr>;
              cl4 = cl3\<lparr>LatestFinalizedHeader := None\<rparr>;
              scan = scanHeaders R t (EngineClients cl4) (LatestFinalizedNumber cl4);
              cl5 = (case snd scan of
                       Some newHeader \<Rightarrow> cl4\<lparr>LatestFinalizedHeader := Some newHeader\<rparr>
                     | None \<Rightarrow> cl4)
          in if LatestFinalizedHeader cl5 = None then (fst scan, cl5, Inl Fatalf)
             else
               let t2 = fst scan @ map CallSwitchProtocol (EngineClients cl5)
               in if \<not> BlockProductionMustStop cl5 then (t2, cl5, Inr TimerMinePOSBlock)
                  else (t2, cl5, Inl FatalUnlock))"

text \<open>How an invocation of \<^verbatim>\<open>minePOSBlock\<close> returns: at once because the stop flag
  is up (line 219), or from its last line after a block was produced, with the timer it
  has set.\<close>

datatype mine_end = StoppedAtEntry | BlockProduced timer

definition minePOSBlock ::
  "env \<Rightarrow> nat \<Rightarrow> trace \<Rightarrow> CLMocker \<Rightarrow> trace \<times> CLMocker \<times> (abort + mine_end)" where
  "minePOSBlock R fuel t cl =
     (if BlockProductionMustStop cl then (t, cl, Inr StoppedAtEntry)
      else
        case selectProposer R fuel t cl of
          (t1, cl1, Inl a) \<Rightarrow> (t1, cl1, Inl a)
        | (t1, cl1, Inr lastBlockNumber) \<Rightarrow>
            (case requestBuild R t1 cl1 of
               (t2, cl2, Inl a) \<Rightarrow> (t2, cl2, Inl a)
             | (t2, cl2, Inr nextRandom) \<Rightarrow>
                 (case executeAndForkchoice R t2 cl2 of
                    (t3, cl3) \<Rightarrow>
                      (case finishCycle R t3 cl3 nextRandom lastBlockNumber of
                         (t4, cl4, Inl a) \<Rightarrow> (t4, cl4, Inl a)
                       | (t4, cl4, Inr tm) \<Rightarrow> (t4, cl4, Inr (BlockProduced tm))))))"

subsection \<open>The orchestrator's lifetime\<close>

text \<open>The operations that touch a \<^verbatim>\<open>CLMocker\<close>, and a run of them from a state.\<close>

datatype operation =
    OpAddEngineClient EngineClient
  | OpRemoveEngineClient EngineClient
  | OpCheckTTD
  | OpStopPoSBlockProduction
  | OpSetNextFeeRecipient address "EngineClient option" "Transaction option"
  | OpMinePOSBlock nat

fun step :: "env \<Rightarrow> trace \<times> CLMocker \<Rightarrow> operation \<Rightarrow> trace \<times> CLMocker" where
  "step R (t, cl) (OpAddEngineClient ec) = (t, AddEngineClient cl ec)"
| "step R (t, cl) (OpRemoveEngineClient ec) = (t, RemoveEngineClient cl ec)"
| "step R (t, cl) OpCheckTTD = (case checkTTD R t cl of (t', cl', r) \<Rightarrow> (t', cl'))"
| "step R (t, cl) OpStopPoSBlockProduction = (t, stopPoSBlockProduction cl)"
| "step R (t, cl) (OpSetNextFeeRecipient a ec tx) =
     (case setNextFeeRecipient R t cl a ec tx of (t', cl', r) \<Rightarrow> (t', cl'))"
| "step R (t, cl) (OpMinePOSBlock fuel) =
     (case minePOSBlock R fuel t cl of (t', cl', r) \<Rightarrow> (t', cl'))"

definition run :: "env \<Rightarrow> operation list \<Rightarrow> trace \<times> CLMocker \<Rightarrow> trace \<times> CLMocker" where
  "run R ops tc = foldl (step R) tc ops"

subsection \<open>Reading a list of calls\<close>

text \<open>The forkchoice-update calls among the calls made, with or without payload
  attributes.\<close>

fun isForkchoiceUpdated :: "event \<Rightarrow> bool" where
  "isForkchoiceUpdated (CallForkchoiceUpdatedV1 ec fcs pa) = True"
| "isForkchoiceUpdated e = False"

text \<open>The forkchoice-update calls that ask for a payload: those with attributes.\<close>

fun isBuildRequest :: "event \<Rightarrow> bool" where
  "isBuildRequest (CallForkchoiceUpdatedV1 ec fcs (Some pa)) = True"
| "isBuildRequest e = False"

text \<open>The orchestrator when line 342 is reached: \<open>p\<close> is the proposer and \<open>b\<close> the
  payload it built.\<close>

definition afterBroadcasts :: "CLMocker \<Rightarrow> EngineClient option \<Rightarrow> ExecutableDataV1 \<Rightarrow> CLMocker" where
  "afterBroadcasts cl p b =
     cl\<lparr>NextBlockProducer := p, LatestPayloadBuilt := b, LatestExecutedPayload := b,
        ExecutedPayloadHistory := (ExecutedPayloadHistory cl)(PayloadNumber b \<mapsto> b),
        LatestForkchoice :=
          (LatestForkchoice cl)\<lparr>HeadBlockHash := BlockHash b, SafeBlockHash := BlockHash b,
                                 FinalizedBlockHash := BlockHash b\<rparr>\<rparr>"

subsection \<open>An example network\<close>

text \<open>
  A concrete environment on which the definitions above can be run. Its chain starts at
  height 5 and grows by one block with every payload retrieved. Clients 11 and 12 follow
  the chain, but client 12, asked for a payload, always builds block number 6; client 13
  is stuck at height 4; client 14 is on a fork (same heights, other hashes); client 19
  does not answer. Sending transaction 0 fails.
\<close>

fun isGetPayload :: "event \<Rightarrow> bool" where
  "isGetPayload (CallGetPayloadV1 ec pid) = True"
| "isGetPayload e = False"

definition built :: "trace \<Rightarrow> nat" where
  "built t = length (filter isGetPayload t)"

definition demoHeader :: "EngineClient \<Rightarrow> int \<Rightarrow> Header" where
  "demoHeader ec k =
     \<lparr>Number = k, Time = word_of_int (1000 + 12 * k),
      Hash = word_of_int ((if ec = 14 then 8192 else 4096) + k)\<rparr>"

definition demoEnv :: env where
  "demoEnv =
     \<lparr>randDraw = (\<lambda>t. length t div 2),
      randBytes = (\<lambda>t. word_of_nat (7000 + length t)),
      TotalDifficulty = (\<lambda>t ec. Inr (Some 100)),
      BlockNumber = (\<lambda>t ec.
         if ec = 19 then Inl ''connection refused''
         else if ec = 13 then Inr 4
         else Inr (word_of_nat (5 + built t))),
      HeaderByNumber = (\<lambda>t ec n.
         if ec = 19 then Inl ''connection refused''
         else case n of
                None \<Rightarrow> Inr (demoHeader ec (5 + int (built t)))
              | Some k \<Rightarrow>
                  if 0 \<le> k \<and> k \<le> 5 + int (built t) then Inr (demoHeader ec k)
                  else Inl ''not found''),
      EngineForkchoiceUpdatedV1 = (\<lambda>t ec fcs pa.
         if ec = 19 then Inl ''connection refused''
         else Inr \<lparr>Status = ''SUCCESS'',
                   PayloadID = (case pa of None \<Rightarrow> None | Some a \<Rightarrow> Some (Suc (built t)))\<rparr>),
      EngineGetPayloadV1 = (\<lambda>t ec pid.
         (if ec = 12 then \<lparr>PayloadNumber = 6, BlockHash = 12289\<rparr>
          else \<lparr>PayloadNumber = word_of_nat (6 + built t),
                 BlockHash = word_of_nat (4096 + (6 + built t))\<rparr>, None)),
      EngineExecutePayloadV1 = (\<lambda>t ec p.
         if ec = 19 then Inl ''connection refused''
         else Inr \<lparr>ExecStatus = ''VALID'', LatestValidHash = BlockHash p\<rparr>),
      SendTransaction = (\<lambda>t ec x. if x = 0 then Some ''nonce too low'' else None),
      Equals = (\<lambda>a b. a = b),
      terminalTotalDifficulty = 100\<rparr>"

text \<open>The run that registers clients 11 and 12 and lets the detector tick once
  (\<open>demoTrace0\<close>, \<open>demoState0\<close>), followed by one production cycle
  (\<open>demoTrace1\<close>, \<open>demoState1\<close>).\<close>

definition demoTrace0 :: trace where
  "demoTrace0 =
     [RandIntn 2, CallTotalDifficulty 11, CallHeaderByNumber 11 None,
      CallForkchoiceUpdatedV1 11
        \<lparr>HeadBlockHash = 4101, SafeBlockHash = 4101, FinalizedBlockHash = 4101\<rparr> None,
      CallForkchoiceUpdatedV1 12
        \<lparr>HeadBlockHash = 4101, SafeBlockHash = 4101, FinalizedBlockHash = 4101\<rparr> None]"

definition demoState0 :: CLMocker where
  "demoState0 =
     \<lparr>EngineClients = [11, 12],
      NextBlockProducer = None,
      BlockProductionMustStop = False,
      NextFeeRecipient = 0,
      RandomHistory = Map.empty,
      ExecutedPayloadHistory = Map.empty,
      LatestFinalizedNumber = None,
      LatestFinalizedHeader = Some \<lparr>Number = 5, Time = 1060, Hash = 4101\<rparr>,
      LatestPayloadBuilt = \<lparr>PayloadNumber = 0, BlockHash = 0\<rparr>,
      LatestExecutedPayload = \<lparr>PayloadNumber = 0, BlockHash = 0\<rparr>,
      LatestForkchoice = \<lparr>HeadBlockHash = 4101, SafeBlockHash = 4101, FinalizedBlockHash = 4101\<rparr>,
      FirstPoSBlockNumber = None,
      TTDReached = True,
      PoSBlockProductionActivated = False\<rparr>"

definition demoTrace1 :: trace where
  "demoTrace1 =
     demoTrace0 @
     [RandIntn 2, CallBlockNumber 11, CallHeaderByNumber 11 (Some 5), RandRead,
      CallForkchoiceUpdatedV1 11
        \<lparr>HeadBlockHash = 4101, SafeBlockHash = 4101, FinalizedBlockHash = 4101\<rparr>
        (Some \<lparr>Timestamp = 1061, Random = 7008, SuggestedFeeRecipient = 0\<rparr>),
      CallGetPayloadV1 11 (Some 1),
      CallExecutePayloadV1 11 \<lparr>PayloadNumber = 6, BlockHash = 4102\<rparr>,
      CallExecutePayloadV1 12 \<lparr>PayloadNumber = 6, BlockHash = 4102\<rparr>,
      CallForkchoiceUpdatedV1 11
        \<lparr>HeadBlockHash = 4102, SafeBlockHash = 4101, FinalizedBlockHash = 4101\<rparr> None,
      CallForkchoiceUpdatedV1 12
        \<lparr>HeadBlockHash = 4102, SafeBlockHash = 4101, FinalizedBlockHash = 4101\<rparr> None,
      CallForkchoiceUpdatedV1 11
        \<lparr>HeadBlockHash = 4102, SafeBlockHash = 4102, FinalizedBlockHash = 4101\<rparr> None,
      CallForkchoiceUpdatedV1 12
        \<lparr>HeadBlockHash = 4102, SafeBlockHash = 4102, FinalizedBlockHash = 4101\<rparr> None,
      CallForkchoiceUpdatedV1 11
        \<lparr>HeadBlockHash = 4102, SafeBlockHash = 4102, FinalizedBlockHash = 4102\<rparr> None,
      CallForkchoiceUpdatedV1 12
        \<lparr>HeadBlockHash = 4102, SafeBlockHash = 4102, FinalizedBlockHash = 4102\<rparr> None,
      CallHeaderByNumber 11 (Some 6), CallSwitchProtocol 11, CallSwitchProtocol 12]"

definition demoState1 :: CLMocker where
  "demoState1 =
     \<lparr>EngineClients = [11, 12],
      NextBlockProducer = Some 11,
      BlockProductionMustStop = False,
      NextFeeRecipient = 0,
      RandomHistory = [6 \<mapsto> 7008],
      ExecutedPayloadHistory = [6 \<mapsto> \<lparr>PayloadNumber = 6, BlockHash = 4102\<rparr>],
      LatestFinalizedNumber = Some 6,
      LatestFinalizedHeader = Some \<lparr>Number = 6, Time = 1072, Hash = 4102\<rparr>,
      LatestPayloadBuilt = \<lparr>PayloadNumber = 6, BlockHash = 4102\<rparr>,
      LatestExecutedPayload = \<lparr>PayloadNumber = 6, BlockHash = 4102\<rparr>,
      LatestForkchoice = \<lparr>HeadBlockHash = 4102, SafeBlockHash = 4102, FinalizedBlockHash = 4102\<rparr>,
      FirstPoSBlockNumber = Some 6,
      TTDReached = True,
      PoSBlockProductionActivated = False\<rparr>"



section \<open>Properties of the operations\<close>

subsection \<open>The two broadcasts\<close>

lemma bep_loop_trace:
  "fst (broadcastExecutePayload_loop R payload ecs i t rs) =
     t @ map (\<lambda>ec. CallExecutePayloadV1 ec payload) ecs"
  by (induction ecs arbitrary: i t rs) (auto split: sum.splits)

lemma bep_loop_length:
  "length (snd (broadcastExecutePayload_loop R payload ecs i t rs)) = length rs"
  by (induction ecs arbitrary: i t rs) (auto split: sum.splits)

lemma bep_loop_before:
  "j < i \<Longrightarrow> snd (broadcastExecutePayload_loop R payload ecs i t rs) ! j = rs ! j"
  by (induction ecs arbitrary: i t rs) (auto split: sum.splits)

lemma bep_loop_nth:
  "i + length ecs \<le> length rs \<Longrightarrow> k < length ecs \<Longrightarrow>
   snd (broadcastExecutePayload_loop R payload ecs i t rs) ! (i + k) =
     (case EngineExecutePayloadV1 R (t @ map (\<lambda>ec. CallExecutePayloadV1 ec payload) (take k ecs))
             (ecs ! k) payload of
        Inl e \<Rightarrow> (rs ! (i + k))\<lparr>ExecError := Some e\<rparr>
      | Inr r \<Rightarrow> (rs ! (i + k))\<lparr>ExecutePayloadResponse := Some r\<rparr>)"
proof (induction ecs arbitrary: i t rs k)
  case Nil
  then show ?case by simp
next
  case (Cons ec ecs)
  show ?case
  proof (cases k)
    case 0
    with Cons.prems show ?thesis
      by (auto split: sum.splits simp: bep_loop_before)
  next
    case (Suc k')
    with Cons.prems have k': "k' < length ecs" by simp
    show ?thesis
    proof (cases "EngineExecutePayloadV1 R t ec payload")
      case (Inl e)
      have "Suc i + length ecs \<le> length (rs[i := (rs ! i)\<lparr>ExecError := Some e\<rparr>])"
        using Cons.prems by simp
      from Cons.IH [OF this k', of "t @ [CallExecutePayloadV1 ec payload]"] Inl Suc
      show ?thesis by (simp split: sum.splits)
    next
      case (Inr r)
      have "Suc i + length ecs \<le> length (rs[i := (rs ! i)\<lparr>ExecutePayloadResponse := Some r\<rparr>])"
        using Cons.prems by simp
      from Cons.IH [OF this k', of "t @ [CallExecutePayloadV1 ec payload]"] Inr Suc
      show ?thesis by (simp split: sum.splits)
    qed
  qed
qed

lemma bfu_loop_trace:
  "fst (broadcastForkchoiceUpdated_loop R fcs pa ecs i t rs) =
     t @ map (\<lambda>ec. CallForkchoiceUpdatedV1 ec fcs pa) ecs"
  by (induction ecs arbitrary: i t rs) (auto split: sum.splits)

lemma bfu_loop_length:
  "length (snd (broadcastForkchoiceUpdated_loop R fcs pa ecs i t rs)) = length rs"
  by (induction ecs arbitrary: i t rs) (auto split: sum.splits)

lemma bfu_loop_before:
  "j < i \<Longrightarrow> snd (broadcastForkchoiceUpdated_loop R fcs pa ecs i t rs) ! j = rs ! j"
  by (induction ecs arbitrary: i t rs) (auto split: sum.splits)

lemma bfu_loop_nth:
  "i + length ecs \<le> length rs \<Longrightarrow> k < length ecs \<Longrightarrow>
   snd (broadcastForkchoiceUpdated_loop R fcs pa ecs i t rs) ! (i + k) =
     (case EngineForkchoiceUpdatedV1 R (t @ map (\<lambda>ec. CallForkchoiceUpdatedV1 ec fcs pa) (take k ecs))
             (ecs ! k) fcs pa of
        Inl e \<Rightarrow> (rs ! (i + k))\<lparr>Error := Some e\<rparr>
      | Inr r \<Rightarrow> (rs ! (i + k))\<lparr>ForkchoiceResponse := Some r\<rparr>)"
proof (induction ecs arbitrary: i t rs k)
  case Nil
  then show ?case by simp
next
  case (Cons ec ecs)
  show ?case
  proof (cases k)
    case 0
    with Cons.prems show ?thesis
      by (auto split: sum.splits simp: bfu_loop_before)
  next
    case (Suc k')
    with Cons.prems have k': "k' < length ecs" by simp
    show ?thesis
    proof (cases "EngineForkchoiceUpdatedV1 R t ec fcs pa")
      case (Inl e)
      have "Suc i + length ecs \<le> length (rs[i := (rs ! i)\<lparr>Error := Some e\<rparr>])"
        using Cons.prems by simp
      from Cons.IH [OF this k', of "t @ [CallForkchoiceUpdatedV1 ec fcs pa]"] Inl Suc
      show ?thesis by (simp split: sum.splits)
    next
      case (Inr r)
      have "Suc i + length ecs \<le> length (rs[i := (rs ! i)\<lparr>ForkchoiceResponse := Some r\<rparr>])"
        using Cons.prems by simp
      from Cons.IH [OF this k', of "t @ [CallForkchoiceUpdatedV1 ec fcs pa]"] Inr Suc
      show ?thesis by (simp split: sum.splits)
    qed
  qed
qed

lemma broadcastExecutePayload_trace:
  "fst (broadcastExecutePayload R t cl payload) =
     t @ map (\<lambda>ec. CallExecutePayloadV1 ec payload) (EngineClients cl)"
  by (simp add: broadcastExecutePayload_def bep_loop_trace)

lemma broadcastForkchoiceUpdated_trace:
  "fst (broadcastForkchoiceUpdated R t cl fcs pa) =
     t @ map (\<lambda>ec. CallForkchoiceUpdatedV1 ec fcs pa) (EngineClients cl)"
  by (simp add: broadcastForkchoiceUpdated_def bfu_loop_trace)

subsection \<open>RemoveEngineClient\<close>

lemma findClient_from:
  "j \<le> length cs \<Longrightarrow>
   findClient cs c j =
     (if c \<in> set (drop j cs) then int (j + length (takeWhile (\<lambda>x. x \<noteq> c) (drop j cs))) else -1)"
proof (induction cs c j rule: findClient.induct)
  case (1 cs c j)
  show ?case
  proof (cases "j < length cs")
    case False
    with "1.prems" show ?thesis by (subst findClient.simps) simp
  next
    case True
    then have d: "drop j cs = cs ! j # drop (Suc j) cs"
      by (simp add: Cons_nth_drop_Suc)
    show ?thesis
    proof (cases "cs ! j = c")
      case True
      with \<open>j < length cs\<close> d show ?thesis by (subst findClient.simps) simp
    next
      case False
      with True have "findClient cs c j = findClient cs c (Suc j)"
        by (subst findClient.simps) simp
      also have "\<dots> = (if c \<in> set (drop (Suc j) cs)
                       then int (Suc j + length (takeWhile (\<lambda>x. x \<noteq> c) (drop (Suc j) cs))) else -1)"
        using "1.IH" [OF True False] True by simp
      finally show ?thesis using False d by auto
    qed
  qed
qed

lemma findClient_0:
  "findClient cs c 0 =
     (if c \<in> set cs then int (length (takeWhile (\<lambda>x. x \<noteq> c) cs)) else -1)"
  using findClient_from [of 0 cs c] by simp

lemma mset_swap_remove:
  assumes "i < length cs"
  shows "mset (take (length cs - 1) (cs[i := cs ! (length cs - 1)])) = mset cs - {# cs ! i #}"
proof -
  define n where "n = length cs - 1"
  have n: "Suc n = length cs" using assms by (simp add: n_def)
  have cs: "cs = take n cs @ [cs ! n]"
    using n by (metis lessI take_Suc_conv_app_nth take_all order_refl)
  have m: "mset cs = add_mset (cs ! n) (mset (take n cs))"
    by (subst cs) simp
  show ?thesis
  proof (cases "i = n")
    case True
    then have "take n (cs[i := cs ! n]) = take n cs" by simp
    with True m show ?thesis by (simp add: n_def)
  next
    case False
    with assms n have lt: "i < n" by simp
    then have "take n (cs[i := cs ! n]) = (take n cs)[i := cs ! n]"
      by (simp add: take_update_swap)
    moreover have "mset ((take n cs)[i := cs ! n]) = add_mset (cs ! n) (mset (take n cs) - {# take n cs ! i #})"
      using lt n by (simp add: mset_update)
    moreover have ti: "take n cs ! i = cs ! i" using lt by simp
    moreover have "cs ! i \<in># mset (take n cs)"
    proof -
      have "i < length (take n cs)" using lt n by simp
      then have "take n cs ! i \<in># mset (take n cs)" by (rule nth_mem_mset)
      with ti show ?thesis by simp
    qed
    ultimately show ?thesis using m by (simp add: n_def)
  qed
qed

lemma first_index:
  assumes "c \<in> set cs"
  shows "length (takeWhile (\<lambda>x. x \<noteq> c) cs) < length cs"
    and "cs ! length (takeWhile (\<lambda>x. x \<noteq> c) cs) = c"
    and "\<forall>j < length (takeWhile (\<lambda>x. x \<noteq> c) cs). cs ! j \<noteq> c"
proof -
  show l: "length (takeWhile (\<lambda>x. x \<noteq> c) cs) < length cs"
    using assms by (induction cs) auto
  from nth_length_takeWhile [OF l] show "cs ! length (takeWhile (\<lambda>x. x \<noteq> c) cs) = c"
    by simp
  show "\<forall>j < length (takeWhile (\<lambda>x. x \<noteq> c) cs). cs ! j \<noteq> c"
  proof (intro allI impI)
    fix j
    assume j: "j < length (takeWhile (\<lambda>x. x \<noteq> c) cs)"
    then have "takeWhile (\<lambda>x. x \<noteq> c) cs ! j \<in> set (takeWhile (\<lambda>x. x \<noteq> c) cs)"
      by (rule nth_mem)
    then have "takeWhile (\<lambda>x. x \<noteq> c) cs ! j \<noteq> c"
      by (auto dest: set_takeWhileD)
    with takeWhile_nth [OF j] show "cs ! j \<noteq> c" by simp
  qed
qed

subsection \<open>The proposer-selection loop\<close>

lemma selectProposer_frame:
  "fst (snd (selectProposer R fuel t cl)) =
     cl\<lparr>NextBlockProducer := NextBlockProducer (fst (snd (selectProposer R fuel t cl)))\<rparr>"
proof (induction fuel arbitrary: t cl)
  case 0
  show ?case by simp
next
  case (Suc fuel)
  have upd: "\<And>t' p. fst (snd (selectProposer R fuel t' (cl\<lparr>NextBlockProducer := Some p\<rparr>))) =
      cl\<lparr>NextBlockProducer :=
           NextBlockProducer (fst (snd (selectProposer R fuel t' (cl\<lparr>NextBlockProducer := Some p\<rparr>))))\<rparr>"
  proof -
    fix t' p
    from Suc.IH [of t' "cl\<lparr>NextBlockProducer := Some p\<rparr>"]
    show "fst (snd (selectProposer R fuel t' (cl\<lparr>NextBlockProducer := Some p\<rparr>))) =
      cl\<lparr>NextBlockProducer :=
           NextBlockProducer (fst (snd (selectProposer R fuel t' (cl\<lparr>NextBlockProducer := Some p\<rparr>))))\<rparr>"
      by (metis CLMocker.update_convs(2) CLMocker.surjective)
  qed
  show ?case
    by (simp add: Let_def split: option.splits sum.splits) (use upd in blast)
qed

lemma selectProposer_accept:
  "selectProposer R fuel t cl = (t', cl', Inr n) \<Longrightarrow>
   \<exists>p tb h. p \<in> set (EngineClients cl) \<and> NextBlockProducer cl' = Some p
     \<and> t' = tb @ [CallBlockNumber p, CallHeaderByNumber p (Some (NewInt_int64 n))]
     \<and> BlockNumber R tb p = Inr n
     \<and> (LatestFinalizedNumber cl = None \<or> LatestFinalizedNumber cl = Some (NewInt_int64 n))
     \<and> HeaderByNumber R (tb @ [CallBlockNumber p]) p (Some (NewInt_int64 n)) = Inr h
     \<and> Hash h = HeaderHash (LatestFinalizedHeader cl)"
proof (induction fuel arbitrary: t cl)
  case 0
  then show ?case by simp
next
  case (Suc fuel)
  from Suc.prems show ?case
    apply (simp add: Let_def split: option.splits sum.splits if_splits)
    apply (auto dest!: Suc.IH)
    subgoal by (cases "LatestFinalizedNumber cl") auto
    done
qed

lemma selectProposer_in_bounds:
  "EngineClients cl \<noteq> [] \<Longrightarrow>
   snd (snd (selectProposer R fuel t cl)) \<noteq> Inl PanicIntn
   \<and> snd (snd (selectProposer R fuel t cl)) \<noteq> Inl PanicIndex"
proof (induction fuel arbitrary: t cl)
  case 0
  show ?case by simp
next
  case (Suc fuel)
  have ih: "\<And>t' p. snd (snd (selectProposer R fuel t' (cl\<lparr>NextBlockProducer := Some p\<rparr>))) \<noteq> Inl PanicIntn
       \<and> snd (snd (selectProposer R fuel t' (cl\<lparr>NextBlockProducer := Some p\<rparr>))) \<noteq> Inl PanicIndex"
    using Suc.IH [of "cl\<lparr>NextBlockProducer := Some _\<rparr>"] Suc.prems by simp
  show ?case
    using Suc.prems ih
    by (simp add: Let_def Intn_def split: option.splits sum.splits)
qed

lemma selectProposer_trace:
  "\<exists>evs. fst (selectProposer R fuel t cl) = t @ evs \<and> filter isForkchoiceUpdated evs = []
      \<and> RandRead \<notin> set evs"
proof (induction fuel arbitrary: t cl)
  case 0
  show ?case by simp
next
  case (Suc fuel)
  have ih: "\<exists>evs. fst (selectProposer R fuel (t @ evs0) cl0) = t @ evs
       \<and> filter isForkchoiceUpdated evs = [] \<and> RandRead \<notin> set evs"
    if "filter isForkchoiceUpdated evs0 = []" and "RandRead \<notin> set evs0" for evs0 cl0
  proof -
    from Suc.IH [of "t @ evs0" cl0] obtain evs where
      "fst (selectProposer R fuel (t @ evs0) cl0) = (t @ evs0) @ evs"
      "filter isForkchoiceUpdated evs = []" "RandRead \<notin> set evs"
      by blast
    with that have "fst (selectProposer R fuel (t @ evs0) cl0) = t @ (evs0 @ evs)
       \<and> filter isForkchoiceUpdated (evs0 @ evs) = [] \<and> RandRead \<notin> set (evs0 @ evs)"
      by simp
    then show ?thesis by blast
  qed
  show ?case
    using ih [of "[RandIntn (length (EngineClients cl)), CallBlockNumber _]"]
      ih [of "[RandIntn (length (EngineClients cl)), CallBlockNumber _, CallHeaderByNumber _ _]"]
    by (simp add: Let_def split: option.splits sum.splits)
qed

lemma selectProposer_retry_height:
  "Intn R t (length (EngineClients cl)) = Some i \<Longrightarrow>
   BlockNumber R (t @ [RandIntn (length (EngineClients cl))]) (EngineClients cl ! i) = Inr n \<Longrightarrow>
   LatestFinalizedNumber cl = Some m \<Longrightarrow> m \<noteq> NewInt_int64 n \<Longrightarrow>
   selectProposer R (Suc fuel) t cl =
     selectProposer R fuel
       (t @ [RandIntn (length (EngineClients cl)), CallBlockNumber (EngineClients cl ! i)])
       (cl\<lparr>NextBlockProducer := Some (EngineClients cl ! i)\<rparr>)"
  by (auto simp: Let_def Intn_def split: if_splits)

lemma selectProposer_retry_hash:
  "Intn R t (length (EngineClients cl)) = Some i \<Longrightarrow>
   BlockNumber R (t @ [RandIntn (length (EngineClients cl))]) (EngineClients cl ! i) = Inr n \<Longrightarrow>
   LatestFinalizedNumber cl = None \<or> LatestFinalizedNumber cl = Some (NewInt_int64 n) \<Longrightarrow>
   HeaderByNumber R
     (t @ [RandIntn (length (EngineClients cl)), CallBlockNumber (EngineClients cl ! i)])
     (EngineClients cl ! i) (Some (NewInt_int64 n)) = Inr h \<Longrightarrow>
   HeaderHash (LatestFinalizedHeader cl) \<noteq> Hash h \<Longrightarrow>
   selectProposer R (Suc fuel) t cl =
     selectProposer R fuel
       (t @ [RandIntn (length (EngineClients cl)), CallBlockNumber (EngineClients cl ! i),
             CallHeaderByNumber (EngineClients cl ! i) (Some (NewInt_int64 n))])
       (cl\<lparr>NextBlockProducer := Some (EngineClients cl ! i)\<rparr>)"
  by (auto simp: Let_def Intn_def split: if_splits)

subsection \<open>The build request\<close>

lemma requestBuild_frame:
  "fst (snd (requestBuild R t cl)) =
     cl\<lparr>LatestPayloadBuilt := LatestPayloadBuilt (fst (snd (requestBuild R t cl)))\<rparr>"
  by (simp add: requestBuild_def Let_def split: option.splits sum.splits)

lemma requestBuild_Inr:
  "requestBuild R t cl = (t', cl', Inr r) \<Longrightarrow>
   \<exists>lfh p pid.
     LatestFinalizedHeader cl = Some lfh \<and> NextBlockProducer cl = Some p \<and> r = randBytes R t
     \<and> t' = t @ [RandRead,
                 CallForkchoiceUpdatedV1 p (LatestForkchoice cl)
                   (Some \<lparr>Timestamp = Time lfh + 1, Random = randBytes R t,
                          SuggestedFeeRecipient = NextFeeRecipient cl\<rparr>),
                 CallGetPayloadV1 p pid]
     \<and> cl' = cl\<lparr>LatestPayloadBuilt := LatestPayloadBuilt cl'\<rparr>"
  by (auto simp: requestBuild_def Let_def split: option.splits sum.splits)

lemma requestBuild_call:
  "LatestFinalizedHeader cl = Some lfh \<Longrightarrow> NextBlockProducer cl = Some p \<Longrightarrow>
   \<exists>rest. fst (requestBuild R t cl) =
       t @ [RandRead,
            CallForkchoiceUpdatedV1 p (LatestForkchoice cl)
              (Some \<lparr>Timestamp = Time lfh + 1, Random = randBytes R t,
                     SuggestedFeeRecipient = NextFeeRecipient cl\<rparr>)] @ rest
     \<and> filter isForkchoiceUpdated rest = []"
  by (simp add: requestBuild_def Let_def split: option.splits sum.splits)

subsection \<open>Execution and the three forkchoice broadcasts\<close>

lemma executeAndForkchoice_eq:
  "executeAndForkchoice R t cl =
     (t @ map (\<lambda>ec. CallExecutePayloadV1 ec (LatestPayloadBuilt cl)) (EngineClients cl)
        @ map (\<lambda>ec. CallForkchoiceUpdatedV1 ec
                 ((LatestForkchoice cl)\<lparr>HeadBlockHash := BlockHash (LatestPayloadBuilt cl)\<rparr>) None)
            (EngineClients cl)
        @ map (\<lambda>ec. CallForkchoiceUpdatedV1 ec
                 ((LatestForkchoice cl)\<lparr>HeadBlockHash := BlockHash (LatestPayloadBuilt cl),
                                        SafeBlockHash := BlockHash (LatestPayloadBuilt cl)\<rparr>) None)
            (EngineClients cl)
        @ map (\<lambda>ec. CallForkchoiceUpdatedV1 ec
                 ((LatestForkchoice cl)\<lparr>HeadBlockHash := BlockHash (LatestPayloadBuilt cl),
                                        SafeBlockHash := BlockHash (LatestPayloadBuilt cl),
                                        FinalizedBlockHash := BlockHash (LatestPayloadBuilt cl)\<rparr>) None)
            (EngineClients cl),
      cl\<lparr>LatestExecutedPayload := LatestPayloadBuilt cl,
         ExecutedPayloadHistory :=
           (ExecutedPayloadHistory cl)(PayloadNumber (LatestPayloadBuilt cl) \<mapsto> LatestPayloadBuilt cl),
         LatestForkchoice :=
           (LatestForkchoice cl)\<lparr>HeadBlockHash := BlockHash (LatestPayloadBuilt cl),
                                  SafeBlockHash := BlockHash (LatestPayloadBuilt cl),
                                  FinalizedBlockHash := BlockHash (LatestPayloadBuilt cl)\<rparr>\<rparr>)"
  by (simp add: executeAndForkchoice_def Let_def broadcastExecutePayload_trace
      broadcastForkchoiceUpdated_trace)

subsection \<open>The end of a cycle\<close>

lemma scanHeaders_trace:
  "\<exists>evs. fst (scanHeaders R t ecs n) = t @ evs \<and> filter isForkchoiceUpdated evs = []
      \<and> RandRead \<notin> set evs"
proof (induction ecs arbitrary: t)
  case Nil
  show ?case by simp
next
  case (Cons ec ecs)
  from Cons.IH [of "t @ [CallHeaderByNumber ec n]"] obtain evs where
    "fst (scanHeaders R (t @ [CallHeaderByNumber ec n]) ecs n) = (t @ [CallHeaderByNumber ec n]) @ evs"
    "filter isForkchoiceUpdated evs = []" "RandRead \<notin> set evs"
    by blast
  then have "fst (scanHeaders R (t @ [CallHeaderByNumber ec n]) ecs n) = t @ (CallHeaderByNumber ec n # evs)
      \<and> filter isForkchoiceUpdated (CallHeaderByNumber ec n # evs) = []
      \<and> RandRead \<notin> set (CallHeaderByNumber ec n # evs)"
    by simp
  then have "\<exists>evs. fst (scanHeaders R (t @ [CallHeaderByNumber ec n]) ecs n) = t @ evs
      \<and> filter isForkchoiceUpdated evs = [] \<and> RandRead \<notin> set evs"
    by blast
  then show ?case by (simp split: sum.splits)
qed

lemma filter_switch: "filter isForkchoiceUpdated (map CallSwitchProtocol ecs) = []"
  by (induction ecs) auto

lemma finishCycle_trace:
  "\<exists>evs. fst (finishCycle R t cl r n) = t @ evs \<and> filter isForkchoiceUpdated evs = []
      \<and> RandRead \<notin> set evs"
proof (cases "LatestFinalizedHeader cl")
  case None
  then show ?thesis by (simp add: finishCycle_def)
next
  case (Some lfh)
  obtain evs where e: "fst (scanHeaders R t (EngineClients cl) (Some (NewInt_int64 (n + 1)))) = t @ evs"
    "filter isForkchoiceUpdated evs = []" "RandRead \<notin> set evs"
    using scanHeaders_trace by blast
  have "fst (finishCycle R t cl r n) = t @ evs
        \<or> fst (finishCycle R t cl r n) = t @ (evs @ map CallSwitchProtocol (EngineClients cl))"
    using Some e(1) by (simp add: finishCycle_def Let_def split: option.splits)
  moreover have "filter isForkchoiceUpdated (evs @ map CallSwitchProtocol (EngineClients cl)) = []"
    using e(2) by (simp add: filter_switch)
  moreover have "RandRead \<notin> set (evs @ map CallSwitchProtocol (EngineClients cl))"
    using e(3) by auto
  ultimately show ?thesis using e(2,3) by blast
qed

lemma finishCycle_fields:
  "EngineClients (fst (snd (finishCycle R t cl r n))) = EngineClients cl"
  "LatestForkchoice (fst (snd (finishCycle R t cl r n))) = LatestForkchoice cl"
  "LatestExecutedPayload (fst (snd (finishCycle R t cl r n))) = LatestExecutedPayload cl"
  "LatestPayloadBuilt (fst (snd (finishCycle R t cl r n))) = LatestPayloadBuilt cl"
  "ExecutedPayloadHistory (fst (snd (finishCycle R t cl r n))) = ExecutedPayloadHistory cl"
  "NextBlockProducer (fst (snd (finishCycle R t cl r n))) = NextBlockProducer cl"
  "NextFeeRecipient (fst (snd (finishCycle R t cl r n))) = NextFeeRecipient cl"
  "BlockProductionMustStop (fst (snd (finishCycle R t cl r n))) = BlockProductionMustStop cl"
  by (simp_all add: finishCycle_def Let_def split: option.splits)

lemma finishCycle_FirstPoSBlockNumber:
  "FirstPoSBlockNumber (fst (snd (finishCycle R t cl r n))) =
     (case LatestFinalizedHeader cl of
        None \<Rightarrow> FirstPoSBlockNumber cl
      | Some lfh \<Rightarrow>
          (if FirstPoSBlockNumber cl = None then Some (NewInt_int64 (Uint64 (Number lfh) + 1))
           else FirstPoSBlockNumber cl))"
  by (cases "LatestFinalizedHeader cl"; cases "FirstPoSBlockNumber cl")
    (simp_all add: finishCycle_def Let_def split: option.splits)

lemma finishCycle_RandomHistory:
  "RandomHistory (fst (snd (finishCycle R t cl r n))) =
     (case LatestFinalizedHeader cl of
        None \<Rightarrow> RandomHistory cl
      | Some lfh \<Rightarrow> (RandomHistory cl)(Uint64 (Number lfh) + 1 \<mapsto> r))"
  by (simp add: finishCycle_def Let_def split: option.splits)

lemma finishCycle_Inr:
  "finishCycle R t cl r n = (t', cl', Inr tm) \<Longrightarrow>
   \<exists>lfh. LatestFinalizedHeader cl = Some lfh
     \<and> tm = TimerMinePOSBlock \<and> \<not> BlockProductionMustStop cl
     \<and> LatestFinalizedNumber cl' = Some (NewInt_int64 (n + 1))
     \<and> LatestFinalizedHeader cl' \<noteq> None"
  by (auto simp: finishCycle_def Let_def split: option.splits if_splits)

subsection \<open>A whole cycle\<close>

lemma minePOSBlock_produced:
  "minePOSBlock R fuel t cl = (t', cl', Inr (BlockProduced tm)) \<Longrightarrow>
   \<exists>t1 cl1 n t2 cl2 r t3 cl3.
     \<not> BlockProductionMustStop cl
     \<and> selectProposer R fuel t cl = (t1, cl1, Inr n)
     \<and> requestBuild R t1 cl1 = (t2, cl2, Inr r)
     \<and> executeAndForkchoice R t2 cl2 = (t3, cl3)
     \<and> finishCycle R t3 cl3 r n = (t', cl', Inr tm)"
  by (auto simp: minePOSBlock_def split: if_splits prod.splits sum.splits)

lemma minePOSBlock_shape:
  assumes "minePOSBlock R fuel t cl = (t', cl', Inr (BlockProduced tm))"
  obtains sel lfh p pid post where
    "LatestFinalizedHeader cl = Some lfh"
    "p \<in> set (EngineClients cl)" "NextBlockProducer cl' = Some p"
    "t' = t @ sel
          @ [RandRead,
             CallForkchoiceUpdatedV1 p (LatestForkchoice cl)
               (Some \<lparr>Timestamp = Time lfh + 1, Random = randBytes R (t @ sel),
                      SuggestedFeeRecipient = NextFeeRecipient cl\<rparr>),
             CallGetPayloadV1 p pid]
          @ map (\<lambda>ec. CallExecutePayloadV1 ec (LatestExecutedPayload cl')) (EngineClients cl)
          @ map (\<lambda>ec. CallForkchoiceUpdatedV1 ec
                   ((LatestForkchoice cl)\<lparr>HeadBlockHash := BlockHash (LatestExecutedPayload cl')\<rparr>) None)
              (EngineClients cl)
          @ map (\<lambda>ec. CallForkchoiceUpdatedV1 ec
                   ((LatestForkchoice cl)\<lparr>HeadBlockHash := BlockHash (LatestExecutedPayload cl'),
                                          SafeBlockHash := BlockHash (LatestExecutedPayload cl')\<rparr>) None)
              (EngineClients cl)
          @ map (\<lambda>ec. CallForkchoiceUpdatedV1 ec
                   ((LatestForkchoice cl)\<lparr>HeadBlockHash := BlockHash (LatestExecutedPayload cl'),
                                          SafeBlockHash := BlockHash (LatestExecutedPayload cl'),
                                          FinalizedBlockHash := BlockHash (LatestExecutedPayload cl')\<rparr>) None)
              (EngineClients cl)
          @ post"
    "filter isForkchoiceUpdated sel = []" "RandRead \<notin> set sel"
    "filter isForkchoiceUpdated post = []"
    "LatestForkchoice cl' =
         (LatestForkchoice cl)\<lparr>HeadBlockHash := BlockHash (LatestExecutedPayload cl'),
                                SafeBlockHash := BlockHash (LatestExecutedPayload cl'),
                                FinalizedBlockHash := BlockHash (LatestExecutedPayload cl')\<rparr>"
    "LatestPayloadBuilt cl' = LatestExecutedPayload cl'"
    "RandomHistory cl' = (RandomHistory cl)(Uint64 (Number lfh) + 1 \<mapsto> randBytes R (t @ sel))"
    "ExecutedPayloadHistory cl' =
         (ExecutedPayloadHistory cl)
           (PayloadNumber (LatestExecutedPayload cl') \<mapsto> LatestExecutedPayload cl')"
    "NextFeeRecipient cl' = NextFeeRecipient cl"
    "EngineClients cl' = EngineClients cl"
    "RandRead \<notin> set post"
proof -
  from minePOSBlock_produced [OF assms] obtain t1 cl1 n t2 cl2 r t3 cl3 where
    sel: "selectProposer R fuel t cl = (t1, cl1, Inr n)" and
    req: "requestBuild R t1 cl1 = (t2, cl2, Inr r)" and
    exe: "executeAndForkchoice R t2 cl2 = (t3, cl3)" and
    fin: "finishCycle R t3 cl3 r n = (t', cl', Inr tm)"
    by blast
  from selectProposer_accept [OF sel] obtain p where
    p: "p \<in> set (EngineClients cl)" "NextBlockProducer cl1 = Some p"
    by blast
  from selectProposer_frame [of R fuel t cl] sel p(2)
  have cl1: "cl1 = cl\<lparr>NextBlockProducer := Some p\<rparr>" by simp
  from selectProposer_trace [of R fuel t cl] sel obtain sel_evs where
    t1: "t1 = t @ sel_evs" and
    sel_evs: "filter isForkchoiceUpdated sel_evs = []" "RandRead \<notin> set sel_evs"
    by auto
  from requestBuild_Inr [OF req] cl1 obtain lfh pid where
    lfh: "LatestFinalizedHeader cl = Some lfh" and
    t2: "t2 = t1 @ [RandRead,
                 CallForkchoiceUpdatedV1 p (LatestForkchoice cl)
                   (Some \<lparr>Timestamp = Time lfh + 1, Random = randBytes R t1,
                          SuggestedFeeRecipient = NextFeeRecipient cl\<rparr>),
                 CallGetPayloadV1 p pid]" and
    r: "r = randBytes R t1" and
    cl2: "cl2 = cl1\<lparr>LatestPayloadBuilt := LatestPayloadBuilt cl2\<rparr>"
    by auto
  define b where "b = LatestPayloadBuilt cl2"
  have cl2': "cl2 = cl\<lparr>NextBlockProducer := Some p, LatestPayloadBuilt := b\<rparr>"
    using cl2 cl1 b_def by simp
  from exe have t3: "t3 =
      t2 @ map (\<lambda>ec. CallExecutePayloadV1 ec b) (EngineClients cl)
        @ map (\<lambda>ec. CallForkchoiceUpdatedV1 ec
                 ((LatestForkchoice cl)\<lparr>HeadBlockHash := BlockHash b\<rparr>) None)
            (EngineClients cl)
        @ map (\<lambda>ec. CallForkchoiceUpdatedV1 ec
                 ((LatestForkchoice cl)\<lparr>HeadBlockHash := BlockHash b,
                                        SafeBlockHash := BlockHash b\<rparr>) None)
            (EngineClients cl)
        @ map (\<lambda>ec. CallForkchoiceUpdatedV1 ec
                 ((LatestForkchoice cl)\<lparr>HeadBlockHash := BlockHash b,
                                        SafeBlockHash := BlockHash b,
                                        FinalizedBlockHash := BlockHash b\<rparr>) None)
            (EngineClients cl)"
    and cl3: "cl3 = cl\<lparr>NextBlockProducer := Some p, LatestPayloadBuilt := b,
         LatestExecutedPayload := b,
         ExecutedPayloadHistory := (ExecutedPayloadHistory cl)(PayloadNumber b \<mapsto> b),
         LatestForkchoice :=
           (LatestForkchoice cl)\<lparr>HeadBlockHash := BlockHash b,
                                  SafeBlockHash := BlockHash b,
                                  FinalizedBlockHash := BlockHash b\<rparr>\<rparr>"
    unfolding executeAndForkchoice_eq cl2' by simp_all
  from finishCycle_trace [of R t3 cl3 r n] fin obtain post where
    t': "t' = t3 @ post" and post: "filter isForkchoiceUpdated post = []" "RandRead \<notin> set post"
    by auto
  have cl'_eq: "fst (snd (finishCycle R t3 cl3 r n)) = cl'" using fin by simp
  have f1: "LatestExecutedPayload cl' = b" "LatestPayloadBuilt cl' = b"
    "EngineClients cl' = EngineClients cl" "NextBlockProducer cl' = Some p"
    "NextFeeRecipient cl' = NextFeeRecipient cl"
    "LatestForkchoice cl' = (LatestForkchoice cl)\<lparr>HeadBlockHash := BlockHash b,
                                  SafeBlockHash := BlockHash b,
                                  FinalizedBlockHash := BlockHash b\<rparr>"
    "ExecutedPayloadHistory cl' = (ExecutedPayloadHistory cl)(PayloadNumber b \<mapsto> b)"
    using finishCycle_fields [of R t3 cl3 r n] unfolding cl'_eq by (simp_all add: cl3)
  have f2: "RandomHistory cl' = (RandomHistory cl)(Uint64 (Number lfh) + 1 \<mapsto> randBytes R t1)"
    using finishCycle_RandomHistory [of R t3 cl3 r n] lfh unfolding cl'_eq by (simp add: cl3 r)
  show ?thesis
    by (rule that [of lfh p sel_evs pid post])
      (use lfh p(1) f1 f2 sel_evs post in \<open>simp_all add: t' t3 t2 t1\<close>)
qed

lemma minePOSBlock_state_cases:
  obtains (stopped) "fst (snd (minePOSBlock R fuel t cl)) = cl"
  | (selecting) p where "fst (snd (minePOSBlock R fuel t cl)) = cl\<lparr>NextBlockProducer := p\<rparr>"
  | (building) p b where
      "fst (snd (minePOSBlock R fuel t cl)) = cl\<lparr>NextBlockProducer := p, LatestPayloadBuilt := b\<rparr>"
  | (finishing) p b r n t3 where
      "fst (snd (minePOSBlock R fuel t cl)) = fst (snd (finishCycle R t3 (afterBroadcasts cl p b) r n))"
proof (cases "BlockProductionMustStop cl")
  case True
  then have "fst (snd (minePOSBlock R fuel t cl)) = cl" by (simp add: minePOSBlock_def)
  then show ?thesis by (rule stopped)
next
  case False
  obtain t1 cl1 r1 where sel: "selectProposer R fuel t cl = (t1, cl1, r1)"
    by (cases "selectProposer R fuel t cl") auto
  define p where "p = NextBlockProducer cl1"
  from selectProposer_frame [of R fuel t cl] sel
  have cl1: "cl1 = cl\<lparr>NextBlockProducer := p\<rparr>" by (simp add: p_def)
  show ?thesis
  proof (cases r1)
    case (Inl a)
    with False sel have "fst (snd (minePOSBlock R fuel t cl)) = cl1"
      by (simp add: minePOSBlock_def)
    then show ?thesis unfolding cl1 by (rule selecting)
  next
    case (Inr n)
    obtain t2 cl2 r2 where req: "requestBuild R t1 cl1 = (t2, cl2, r2)"
      by (cases "requestBuild R t1 cl1") auto
    define b where "b = LatestPayloadBuilt cl2"
    from requestBuild_frame [of R t1 cl1] req
    have "cl2 = cl1\<lparr>LatestPayloadBuilt := b\<rparr>" by (simp add: b_def)
    then have cl2: "cl2 = cl\<lparr>NextBlockProducer := p, LatestPayloadBuilt := b\<rparr>"
      by (simp add: cl1)
    show ?thesis
    proof (cases r2)
      case (Inl a)
      with False sel Inr req have "fst (snd (minePOSBlock R fuel t cl)) = cl2"
        by (simp add: minePOSBlock_def)
      then show ?thesis unfolding cl2 by (rule building)
    next
      case r: (Inr r)
      obtain t3 cl3 where exe: "executeAndForkchoice R t2 cl2 = (t3, cl3)"
        by (cases "executeAndForkchoice R t2 cl2") auto
      have cl3: "cl3 = afterBroadcasts cl p b"
        using exe unfolding executeAndForkchoice_eq afterBroadcasts_def cl2 by simp
      have "fst (snd (minePOSBlock R fuel t cl)) = fst (snd (finishCycle R t3 cl3 r n))"
        using False sel Inr req r exe
        by (simp add: minePOSBlock_def split: prod.splits sum.splits)
      then show ?thesis unfolding cl3 by (rule finishing)
    qed
  qed
qed

lemma minePOSBlock_FirstPoSBlockNumber:
  "FirstPoSBlockNumber (fst (snd (minePOSBlock R fuel t cl))) = FirstPoSBlockNumber cl
   \<or> (FirstPoSBlockNumber cl = None
       \<and> (\<exists>lfh. LatestFinalizedHeader cl = Some lfh
             \<and> FirstPoSBlockNumber (fst (snd (minePOSBlock R fuel t cl))) =
                 Some (NewInt_int64 (Uint64 (Number lfh) + 1))))"
proof (cases rule: minePOSBlock_state_cases [of R fuel t cl])
  case (finishing p b r n t3)
  then show ?thesis
    by (simp add: finishCycle_FirstPoSBlockNumber afterBroadcasts_def split: option.splits)
qed simp_all



subsection \<open>Single operations\<close>

lemma step_FirstPoSBlockNumber:
  "FirstPoSBlockNumber (snd (step R (t, cl) op)) = FirstPoSBlockNumber cl
   \<or> (FirstPoSBlockNumber cl = None
       \<and> (\<exists>fuel lfh. op = OpMinePOSBlock fuel \<and> LatestFinalizedHeader cl = Some lfh
             \<and> FirstPoSBlockNumber (snd (step R (t, cl) op)) =
                 Some (NewInt_int64 (Uint64 (Number lfh) + 1))))"
proof (cases op)
  case (OpMinePOSBlock fuel)
  with minePOSBlock_FirstPoSBlockNumber [of R fuel t cl] show ?thesis
    by (auto split: prod.splits)
next
  case OpCheckTTD
  then show ?thesis
    by (simp add: checkTTD_def Let_def split: prod.splits option.splits sum.splits)
qed (simp_all add: AddEngineClient_def RemoveEngineClient_def Let_def stopPoSBlockProduction_def
      setNextFeeRecipient_def split: prod.splits option.splits sum.splits)

lemma run_FirstPoSBlockNumber:
  "FirstPoSBlockNumber cl = Some n \<Longrightarrow> FirstPoSBlockNumber (snd (run R ops (t, cl))) = Some n"
proof (induction ops arbitrary: t cl)
  case Nil
  then show ?case by (simp add: run_def)
next
  case (Cons op ops)
  obtain t1 cl1 where s: "step R (t, cl) op = (t1, cl1)" by (cases "step R (t, cl) op") auto
  with step_FirstPoSBlockNumber [of R t cl op] Cons.prems
  have "FirstPoSBlockNumber cl1 = Some n" by auto
  from Cons.IH [OF this, of t1] s show ?case by (simp add: run_def)
qed

subsection \<open>Panics of a cycle\<close>

lemma requestBuild_no_index_panic:
  "snd (snd (requestBuild R t cl)) \<noteq> Inl PanicIntn
   \<and> snd (snd (requestBuild R t cl)) \<noteq> Inl PanicIndex"
  by (simp add: requestBuild_def Let_def split: option.splits sum.splits)

lemma finishCycle_no_index_panic:
  "snd (snd (finishCycle R t cl r n)) \<noteq> Inl PanicIntn
   \<and> snd (snd (finishCycle R t cl r n)) \<noteq> Inl PanicIndex"
  by (simp add: finishCycle_def Let_def split: option.splits)

lemma minePOSBlock_no_index_panic:
  assumes "EngineClients cl \<noteq> []"
  shows "snd (snd (minePOSBlock R fuel t cl)) \<noteq> Inl PanicIntn
   \<and> snd (snd (minePOSBlock R fuel t cl)) \<noteq> Inl PanicIndex"
proof (cases "BlockProductionMustStop cl")
  case True
  then show ?thesis by (simp add: minePOSBlock_def)
next
  case False
  obtain t1 cl1 r1 where sel: "selectProposer R fuel t cl = (t1, cl1, r1)"
    by (cases "selectProposer R fuel t cl") auto
  from selectProposer_in_bounds [OF assms, of R fuel t] sel
  have r1: "r1 \<noteq> Inl PanicIntn" "r1 \<noteq> Inl PanicIndex" by simp_all
  show ?thesis
  proof (cases r1)
    case (Inl a)
    with False sel r1 show ?thesis by (simp add: minePOSBlock_def)
  next
    case (Inr n)
    obtain t2 cl2 r2 where req: "requestBuild R t1 cl1 = (t2, cl2, r2)"
      by (cases "requestBuild R t1 cl1") auto
    from requestBuild_no_index_panic [of R t1 cl1] req
    have r2: "r2 \<noteq> Inl PanicIntn" "r2 \<noteq> Inl PanicIndex" by simp_all
    show ?thesis
    proof (cases r2)
      case (Inl a)
      with False sel Inr req r2 show ?thesis by (simp add: minePOSBlock_def)
    next
      case r: (Inr r)
      obtain t3 cl3 where exe: "executeAndForkchoice R t2 cl2 = (t3, cl3)"
        by (cases "executeAndForkchoice R t2 cl2") auto
      obtain t4 cl4 r4 where fin: "finishCycle R t3 cl3 r n = (t4, cl4, r4)"
        by (cases "finishCycle R t3 cl3 r n") auto
      from finishCycle_no_index_panic [of R t3 cl3 r n] fin
      have r4: "r4 \<noteq> Inl PanicIntn" "r4 \<noteq> Inl PanicIndex" by simp_all
      from False sel Inr req r exe fin r4 show ?thesis
        by (cases r4) (simp_all add: minePOSBlock_def)
    qed
  qed
qed

lemma selectProposer_producer:
  "EngineClients cl \<noteq> [] \<Longrightarrow>
   0 < fuel \<or> (\<exists>p \<in> set (EngineClients cl). NextBlockProducer cl = Some p) \<Longrightarrow>
   \<exists>p \<in> set (EngineClients cl). NextBlockProducer (fst (snd (selectProposer R fuel t cl))) = Some p"
proof (induction fuel arbitrary: t cl)
  case 0
  then show ?case by simp
next
  case (Suc fuel)
  have ih: "\<exists>p \<in> set (EngineClients cl).
      NextBlockProducer (fst (snd (selectProposer R fuel t'
        (cl\<lparr>NextBlockProducer := Some (EngineClients cl ! i)\<rparr>)))) = Some p"
    if "i < length (EngineClients cl)" for t' i
    using Suc.IH [of "cl\<lparr>NextBlockProducer := Some (EngineClients cl ! i)\<rparr>" t'] Suc.prems(1) that
    by simp
  show ?case
    using Suc.prems(1) ih
    by (simp add: Let_def Intn_def split: option.splits sum.splits)
qed

lemma minePOSBlock_NextBlockProducer:
  "\<not> BlockProductionMustStop cl \<Longrightarrow>
   NextBlockProducer (fst (snd (minePOSBlock R fuel t cl))) =
     NextBlockProducer (fst (snd (selectProposer R fuel t cl)))"
proof -
  assume go: "\<not> BlockProductionMustStop cl"
  obtain t1 cl1 r1 where sel: "selectProposer R fuel t cl = (t1, cl1, r1)"
    by (cases "selectProposer R fuel t cl") auto
  show ?thesis
  proof (cases r1)
    case (Inl a)
    with go sel show ?thesis by (simp add: minePOSBlock_def)
  next
    case (Inr n)
    obtain t2 cl2 r2 where req: "requestBuild R t1 cl1 = (t2, cl2, r2)"
      by (cases "requestBuild R t1 cl1") auto
    define b where "b = LatestPayloadBuilt cl2"
    from requestBuild_frame [of R t1 cl1] req
    have "cl2 = cl1\<lparr>LatestPayloadBuilt := b\<rparr>" by (simp add: b_def)
    then have nbp2: "NextBlockProducer cl2 = NextBlockProducer cl1" by simp
    show ?thesis
    proof (cases r2)
      case (Inl a)
      with go sel Inr req nbp2 show ?thesis by (simp add: minePOSBlock_def)
    next
      case r: (Inr r)
      obtain t3 cl3 where exe: "executeAndForkchoice R t2 cl2 = (t3, cl3)"
        by (cases "executeAndForkchoice R t2 cl2") auto
      have nbp3: "NextBlockProducer cl3 = NextBlockProducer cl2"
        using exe unfolding executeAndForkchoice_eq by auto
      have "fst (snd (minePOSBlock R fuel t cl)) = fst (snd (finishCycle R t3 cl3 r n))"
        using go sel Inr req r exe
        by (simp add: minePOSBlock_def split: prod.splits sum.splits)
      with nbp3 nbp2 sel show ?thesis by (simp add: finishCycle_fields)
    qed
  qed
qed

subsection \<open>The history maps\<close>




subsection \<open>Running the example network\<close>

lemma demo_run0:
  "run demoEnv [OpAddEngineClient 11, OpAddEngineClient 12, OpCheckTTD] ([], NewCLMocker)
     = (demoTrace0, demoState0)"
  by (simp add: run_def AddEngineClient_def NewCLMocker_def zeroPayload_def checkTTD_def Intn_def
      demoEnv_def demoHeader_def built_def Let_def broadcastForkchoiceUpdated_trace
      demoTrace0_def demoState0_def)

lemma built_demoTrace0: "built demoTrace0 = 0"
  by (simp add: built_def demoTrace0_def)

lemma length_demoTrace0: "length demoTrace0 = 5"
  by (simp add: demoTrace0_def)

lemma mod_two_clients: "n mod Suc (Suc 0) = n mod 2"
  by (simp add: numeral_2_eq_2)

lemma demo_select1:
  "selectProposer demoEnv (Suc 0) demoTrace0 demoState0 =
     (demoTrace0 @ [RandIntn 2, CallBlockNumber 11, CallHeaderByNumber 11 (Some 5)],
      demoState0\<lparr>NextBlockProducer := Some 11\<rparr>, Inr 5)"
  by (simp add: Intn_def demoEnv_def demoHeader_def built_def Let_def NewInt_int64_def
      length_demoTrace0 built_demoTrace0 [unfolded built_def] demoState0_def mod_two_clients)

lemma demo_request1:
  "requestBuild demoEnv (demoTrace0 @ [RandIntn 2, CallBlockNumber 11, CallHeaderByNumber 11 (Some 5)])
     (demoState0\<lparr>NextBlockProducer := Some 11\<rparr>) =
     (demoTrace0 @ [RandIntn 2, CallBlockNumber 11, CallHeaderByNumber 11 (Some 5), RandRead,
        CallForkchoiceUpdatedV1 11
          \<lparr>HeadBlockHash = 4101, SafeBlockHash = 4101, FinalizedBlockHash = 4101\<rparr>
          (Some \<lparr>Timestamp = 1061, Random = 7008, SuggestedFeeRecipient = 0\<rparr>),
        CallGetPayloadV1 11 (Some 1)],
      demoState0\<lparr>NextBlockProducer := Some 11,
                  LatestPayloadBuilt := \<lparr>PayloadNumber = 6, BlockHash = 4102\<rparr>\<rparr>,
      Inr 7008)"
  by (simp add: requestBuild_def demoEnv_def built_def Let_def
      length_demoTrace0 built_demoTrace0 [unfolded built_def] demoState0_def)

lemma demo_cycle1:
  "minePOSBlock demoEnv (Suc 0) demoTrace0 demoState0 =
     (demoTrace1, demoState1, Inr (BlockProduced TimerMinePOSBlock))"
proof -
  have go: "\<not> BlockProductionMustStop demoState0" by (simp add: demoState0_def)
  show ?thesis
    apply (simp add: minePOSBlock_def go demo_select1 demo_request1 executeAndForkchoice_eq
        del: selectProposer.simps)
    apply (simp add: finishCycle_def demoEnv_def built_def Let_def Uint64_def NewInt_int64_def
        demoHeader_def built_demoTrace0 [unfolded built_def] demoState0_def demoState1_def
        demoTrace1_def)
    done
qed






subsection \<open>Filtering the calls of a cycle\<close>

lemma filter_build_request:
  "filter isForkchoiceUpdated evs = [] \<Longrightarrow> filter isBuildRequest evs = []"
proof (induction evs)
  case Nil
  show ?case by simp
next
  case (Cons e evs)
  then show ?case by (cases e) (auto split: if_splits)
qed



lemma filter_build_request_map_exec:
  "filter isBuildRequest (map (\<lambda>ec. CallExecutePayloadV1 ec b) ecs) = []"
  by (induction ecs) auto

lemma filter_build_request_map_fcu:
  "filter isBuildRequest (map (\<lambda>ec. CallForkchoiceUpdatedV1 ec f None) ecs) = []"
  by (induction ecs) auto

lemma RandRead_notin_map:
  "RandRead \<notin> set (map (\<lambda>ec. CallExecutePayloadV1 ec b) ecs)"
  "RandRead \<notin> set (map (\<lambda>ec. CallForkchoiceUpdatedV1 ec f pa) ecs)"
  by auto

section \<open>The claims\<close>

subsection \<open>C1: the chain pointers after a completed cycle\<close>



subsection \<open>C2: which client is accepted as proposer\<close>

text \<open>
  C2, as amended. In the proposer-selection loop a drawn client is returned as proposer
  only if \<open>LatestFinalizedNumber\<close> is nil (as it is in the first cycle after the
  transition, where no height is compared) or equals the height the client reports, and
  the hash of the client's header at that height equals the hash of
  \<open>LatestFinalizedHeader\<close>, which for a nil header is \<open>nilHeaderHash\<close>. A drawn client
  that fails the height comparison, or passes it and fails the hash comparison, is not
  returned: the loop goes on with a new draw, made after the calls of the failed
  attempt.
\<close>

theorem proposer_accepted_only_if_caught_up:
  "(selectProposer R fuel t cl = (t', cl', Inr n) \<longrightarrow>
      (\<exists>p tb h.
          p \<in> set (EngineClients cl) \<and> NextBlockProducer cl' = Some p
          \<and> t' = tb @ [CallBlockNumber p, CallHeaderByNumber p (Some (NewInt_int64 n))]
          \<and> BlockNumber R tb p = Inr n
          \<and> (LatestFinalizedNumber cl = None \<or> LatestFinalizedNumber cl = Some (NewInt_int64 n))
          \<and> HeaderByNumber R (tb @ [CallBlockNumber p]) p (Some (NewInt_int64 n)) = Inr h
          \<and> Hash h = HeaderHash (LatestFinalizedHeader cl)))
   \<and> (Intn R t (length (EngineClients cl)) = Some i
       \<and> BlockNumber R (t @ [RandIntn (length (EngineClients cl))]) (EngineClients cl ! i) = Inr m
       \<and> LatestFinalizedNumber cl = Some k \<and> k \<noteq> NewInt_int64 m \<longrightarrow>
       selectProposer R (Suc fuel) t cl =
         selectProposer R fuel
           (t @ [RandIntn (length (EngineClients cl)), CallBlockNumber (EngineClients cl ! i)])
           (cl\<lparr>NextBlockProducer := Some (EngineClients cl ! i)\<rparr>))
   \<and> (Intn R t (length (EngineClients cl)) = Some i
       \<and> BlockNumber R (t @ [RandIntn (length (EngineClients cl))]) (EngineClients cl ! i) = Inr m
       \<and> (LatestFinalizedNumber cl = None \<or> LatestFinalizedNumber cl = Some (NewInt_int64 m))
       \<and> HeaderByNumber R
            (t @ [RandIntn (length (EngineClients cl)), CallBlockNumber (EngineClients cl ! i)])
            (EngineClients cl ! i) (Some (NewInt_int64 m)) = Inr ch
       \<and> HeaderHash (LatestFinalizedHeader cl) \<noteq> Hash ch \<longrightarrow>
       selectProposer R (Suc fuel) t cl =
         selectProposer R fuel
           (t @ [RandIntn (length (EngineClients cl)), CallBlockNumber (EngineClients cl ! i),
                 CallHeaderByNumber (EngineClients cl ! i) (Some (NewInt_int64 m))])
           (cl\<lparr>NextBlockProducer := Some (EngineClients cl ! i)\<rparr>))"
  using selectProposer_accept [of R fuel t cl t' cl' n]
    selectProposer_retry_height [of R t cl i m k fuel]
    selectProposer_retry_hash [of R t cl i m ch fuel]
  by blast

theorem proposer_accepted_only_if_caught_up_witness:
  "selectProposer demoEnv (Suc 0) demoTrace0 demoState0 =
       (demoTrace0 @ [RandIntn 2, CallBlockNumber 11, CallHeaderByNumber 11 (Some 5)],
        demoState0\<lparr>NextBlockProducer := Some 11\<rparr>, Inr 5)
   \<and> BlockNumber demoEnv (demoTrace0 @ [RandIntn 2]) 11 = Inr 5
   \<and> Intn demoEnv [] (length (EngineClients (demoState1\<lparr>EngineClients := [13, 11]\<rparr>))) = Some 0
   \<and> BlockNumber demoEnv [RandIntn (length (EngineClients (demoState1\<lparr>EngineClients := [13, 11]\<rparr>)))]
        (EngineClients (demoState1\<lparr>EngineClients := [13, 11]\<rparr>) ! 0) = Inr 4
   \<and> LatestFinalizedNumber (demoState1\<lparr>EngineClients := [13, 11]\<rparr>) = Some 6
   \<and> (6::int) \<noteq> NewInt_int64 4
   \<and> selectProposer demoEnv (Suc (Suc 0)) [] (demoState1\<lparr>EngineClients := [13, 11]\<rparr>) =
       selectProposer demoEnv (Suc 0) [RandIntn 2, CallBlockNumber 13]
         (demoState1\<lparr>EngineClients := [13, 11], NextBlockProducer := Some 13\<rparr>)
   \<and> Intn demoEnv [] (length (EngineClients (demoState0\<lparr>EngineClients := [14, 11]\<rparr>))) = Some 0
   \<and> BlockNumber demoEnv [RandIntn (length (EngineClients (demoState0\<lparr>EngineClients := [14, 11]\<rparr>)))]
        (EngineClients (demoState0\<lparr>EngineClients := [14, 11]\<rparr>) ! 0) = Inr 5
   \<and> LatestFinalizedNumber (demoState0\<lparr>EngineClients := [14, 11]\<rparr>) = None
   \<and> HeaderByNumber demoEnv [RandIntn 2, CallBlockNumber 14] 14 (Some 5)
       = Inr \<lparr>Number = 5, Time = 1060, Hash = 8197\<rparr>
   \<and> LatestFinalizedHeader (demoState0\<lparr>EngineClients := [14, 11]\<rparr>)
       = Some \<lparr>Number = 5, Time = 1060, Hash = 4101\<rparr>
   \<and> selectProposer demoEnv (Suc (Suc 0)) [] (demoState0\<lparr>EngineClients := [14, 11]\<rparr>) =
       (selectProposer demoEnv (Suc 0)
         [RandIntn 2, CallBlockNumber 14, CallHeaderByNumber 14 (Some 5)]
         (demoState0\<lparr>EngineClients := [14, 11], NextBlockProducer := Some 14\<rparr>))
   \<and> snd (snd (selectProposer demoEnv (Suc (Suc 0)) [] (demoState0\<lparr>EngineClients := [14, 11]\<rparr>)))
       = Inr 5
   \<and> NextBlockProducer
        (fst (snd (selectProposer demoEnv (Suc (Suc 0)) [] (demoState0\<lparr>EngineClients := [14, 11]\<rparr>))))
       = Some 11
   \<and> LatestFinalizedHeader (NewCLMocker\<lparr>EngineClients := [11, 12]\<rparr>) = None
   \<and> HeaderByNumber demoEnv [RandIntn 2, CallBlockNumber 11] 11 (Some 5)
       = Inr \<lparr>Number = 5, Time = 1060, Hash = 4101\<rparr>
   \<and> selectProposer demoEnv (Suc (Suc 0)) [] (NewCLMocker\<lparr>EngineClients := [11, 12]\<rparr>) =
       (selectProposer demoEnv (Suc 0)
         [RandIntn 2, CallBlockNumber 11, CallHeaderByNumber 11 (Some 5)]
         (NewCLMocker\<lparr>EngineClients := [11, 12], NextBlockProducer := Some 11\<rparr>))"
proof -
  let ?B = "demoState1\<lparr>EngineClients := [13, 11]\<rparr>"
  let ?C = "demoState0\<lparr>EngineClients := [14, 11]\<rparr>"
  let ?D = "NewCLMocker\<lparr>EngineClients := [11, 12]\<rparr>"
  have d1: "Intn demoEnv [] (length (EngineClients ?D)) = Some 0"
    by (simp add: Intn_def demoEnv_def)
  have d2: "BlockNumber demoEnv ([] @ [RandIntn (length (EngineClients ?D))]) (EngineClients ?D ! 0)
      = Inr 5"
    by (simp add: demoEnv_def built_def)
  have d3: "LatestFinalizedNumber ?D = None" by (simp add: NewCLMocker_def)
  have d4: "HeaderByNumber demoEnv
      ([] @ [RandIntn (length (EngineClients ?D)), CallBlockNumber (EngineClients ?D ! 0)])
      (EngineClients ?D ! 0) (Some (NewInt_int64 5)) = Inr \<lparr>Number = 5, Time = 1060, Hash = 4101\<rparr>"
    by (simp add: demoEnv_def built_def demoHeader_def NewInt_int64_def)
  have d4': "HeaderByNumber demoEnv [RandIntn 2, CallBlockNumber 11] 11 (Some 5)
       = Inr \<lparr>Number = 5, Time = 1060, Hash = 4101\<rparr>"
    by (simp add: demoEnv_def built_def demoHeader_def)
  have d5: "LatestFinalizedHeader ?D = None" by (simp add: NewCLMocker_def)
  have d6: "HeaderHash (LatestFinalizedHeader ?D) \<noteq> Hash \<lparr>Number = 5, Time = 1060, Hash = (4101::hash)\<rparr>"
    by (simp add: NewCLMocker_def nilHeaderHash_def)
  have a: "BlockNumber demoEnv (demoTrace0 @ [RandIntn 2]) 11 = Inr 5"
    by (simp add: demoEnv_def built_def demoTrace0_def)
  have b1: "Intn demoEnv [] (length (EngineClients ?B)) = Some 0"
    by (simp add: Intn_def demoEnv_def)
  have b2: "BlockNumber demoEnv ([] @ [RandIntn (length (EngineClients ?B))]) (EngineClients ?B ! 0)
      = Inr 4"
    by (simp add: demoEnv_def)
  have b2': "BlockNumber demoEnv [RandIntn (length (EngineClients ?B))] (EngineClients ?B ! 0) = Inr 4"
    by (simp add: demoEnv_def)
  have b3: "LatestFinalizedNumber ?B = Some 6" by (simp add: demoState1_def)
  have b4: "(6::int) \<noteq> NewInt_int64 4" by (simp add: NewInt_int64_def)
  have c1: "Intn demoEnv [] (length (EngineClients ?C)) = Some 0"
    by (simp add: Intn_def demoEnv_def)
  have c2: "BlockNumber demoEnv ([] @ [RandIntn (length (EngineClients ?C))]) (EngineClients ?C ! 0)
      = Inr 5"
    by (simp add: demoEnv_def built_def)
  have c2': "BlockNumber demoEnv [RandIntn (length (EngineClients ?C))] (EngineClients ?C ! 0) = Inr 5"
    by (simp add: demoEnv_def built_def)
  have c3: "LatestFinalizedNumber ?C = None" by (simp add: demoState0_def)
  have c4: "HeaderByNumber demoEnv
      ([] @ [RandIntn (length (EngineClients ?C)), CallBlockNumber (EngineClients ?C ! 0)])
      (EngineClients ?C ! 0) (Some (NewInt_int64 5)) = Inr \<lparr>Number = 5, Time = 1060, Hash = 8197\<rparr>"
    by (simp add: demoEnv_def built_def demoHeader_def NewInt_int64_def)
  have c5: "LatestFinalizedHeader ?C = Some \<lparr>Number = 5, Time = 1060, Hash = 4101\<rparr>"
    by (simp add: demoState0_def)
  have c6: "HeaderHash (LatestFinalizedHeader ?C) \<noteq> Hash \<lparr>Number = 5, Time = 1060, Hash = (8197::hash)\<rparr>"
    by (simp add: demoState0_def)
  note w = proposer_accepted_only_if_caught_up
  have B: "selectProposer demoEnv (Suc (Suc 0)) [] ?B =
       selectProposer demoEnv (Suc 0)
         ([] @ [RandIntn (length (EngineClients ?B)), CallBlockNumber (EngineClients ?B ! 0)])
         (?B\<lparr>NextBlockProducer := Some (EngineClients ?B ! 0)\<rparr>)"
    by (rule w [where R = demoEnv and t = "[]" and cl = ?B and i = 0 and m = 4 and k = 6
          and fuel = "Suc 0", THEN conjunct2, THEN conjunct1, THEN mp])
      (intro conjI b1 b2 b3 b4)
  have C: "selectProposer demoEnv (Suc (Suc 0)) [] ?C =
         selectProposer demoEnv (Suc 0)
           ([] @ [RandIntn (length (EngineClients ?C)), CallBlockNumber (EngineClients ?C ! 0),
                 CallHeaderByNumber (EngineClients ?C ! 0) (Some (NewInt_int64 5))])
           (?C\<lparr>NextBlockProducer := Some (EngineClients ?C ! 0)\<rparr>)"
    by (rule w [where R = demoEnv and t = "[]" and cl = ?C and i = 0 and m = 5
          and fuel = "Suc 0" and ch = "\<lparr>Number = 5, Time = 1060, Hash = 8197\<rparr>",
          THEN conjunct2, THEN conjunct2, THEN mp])
      (intro conjI disjI1 c1 c2 c3 c4 c6)
  have D: "selectProposer demoEnv (Suc (Suc 0)) [] ?D =
         selectProposer demoEnv (Suc 0)
           ([] @ [RandIntn (length (EngineClients ?D)), CallBlockNumber (EngineClients ?D ! 0),
                 CallHeaderByNumber (EngineClients ?D ! 0) (Some (NewInt_int64 5))])
           (?D\<lparr>NextBlockProducer := Some (EngineClients ?D ! 0)\<rparr>)"
    by (rule w [where R = demoEnv and t = "[]" and cl = ?D and i = 0 and m = 5
          and fuel = "Suc 0" and ch = "\<lparr>Number = 5, Time = 1060, Hash = 4101\<rparr>",
          THEN conjunct2, THEN conjunct2, THEN mp])
      (intro conjI disjI1 d1 d2 d3 d4 d6)
  have D': "selectProposer demoEnv (Suc (Suc 0)) [] ?D =
       selectProposer demoEnv (Suc 0)
         [RandIntn 2, CallBlockNumber 11, CallHeaderByNumber 11 (Some 5)]
         (NewCLMocker\<lparr>EngineClients := [11, 12], NextBlockProducer := Some 11\<rparr>)"
    using D by (simp add: NewInt_int64_def numeral_2_eq_2 del: selectProposer.simps)
  have C2: "selectProposer demoEnv (Suc 0)
         [RandIntn 2, CallBlockNumber 14, CallHeaderByNumber 14 (Some 5)]
         (demoState0\<lparr>EngineClients := [14, 11], NextBlockProducer := Some 14\<rparr>) =
       ([RandIntn 2, CallBlockNumber 14, CallHeaderByNumber 14 (Some 5),
         RandIntn 2, CallBlockNumber 11, CallHeaderByNumber 11 (Some 5)],
        demoState0\<lparr>EngineClients := [14, 11], NextBlockProducer := Some 11\<rparr>, Inr 5)"
    by (simp add: Intn_def demoEnv_def demoHeader_def built_def Let_def NewInt_int64_def
        demoState0_def mod_two_clients)
  have B': "selectProposer demoEnv (Suc (Suc 0)) [] ?B =
       selectProposer demoEnv (Suc 0) [RandIntn 2, CallBlockNumber 13]
         (demoState1\<lparr>EngineClients := [13, 11], NextBlockProducer := Some 13\<rparr>)"
    using B by (simp add: numeral_2_eq_2 del: selectProposer.simps)
  have C': "selectProposer demoEnv (Suc (Suc 0)) [] ?C =
       selectProposer demoEnv (Suc 0)
         [RandIntn 2, CallBlockNumber 14, CallHeaderByNumber 14 (Some 5)]
         (demoState0\<lparr>EngineClients := [14, 11], NextBlockProducer := Some 14\<rparr>)"
    using C by (simp add: NewInt_int64_def numeral_2_eq_2 del: selectProposer.simps)
  have c4': "HeaderByNumber demoEnv [RandIntn 2, CallBlockNumber 14] 14 (Some 5)
       = Inr \<lparr>Number = 5, Time = 1060, Hash = 8197\<rparr>"
    by (simp add: demoEnv_def built_def demoHeader_def)
  have fin: "snd (snd (selectProposer demoEnv (Suc (Suc 0)) [] ?C)) = Inr 5"
    "NextBlockProducer (fst (snd (selectProposer demoEnv (Suc (Suc 0)) [] ?C))) = Some 11"
    unfolding C' C2 by simp_all
  show ?thesis
    apply (intro conjI)
    apply (rule demo_select1)
    apply (rule a)
    apply (rule b1)
    apply (rule b2')
    apply (rule b3)
    apply (rule b4)
    apply (rule B')
    apply (rule c1)
    apply (rule c2')
    apply (rule c3)
    apply (rule c4')
    apply (rule c5)
    apply (rule C')
    apply (rule fin(1))
    apply (rule fin(2))
    apply (rule d5)
    apply (rule d4')
    apply (rule D')
    done
qed

text \<open>
  The claim as worded asks for the reported height to equal \<open>LatestFinalizedNumber\<close>.
  In the first cycle that field is still nil: after two clients have registered and the
  detector has made the transition, client 11 is accepted at height 5 with no height
  compared.
\<close>

theorem proposer_accepted_without_height_check:
  "run demoEnv [OpAddEngineClient 11, OpAddEngineClient 12, OpCheckTTD] ([], NewCLMocker)
     = (demoTrace0, demoState0)
   \<and> selectProposer demoEnv (Suc 0) demoTrace0 demoState0 =
       (demoTrace0 @ [RandIntn 2, CallBlockNumber 11, CallHeaderByNumber 11 (Some 5)],
        demoState0\<lparr>NextBlockProducer := Some 11\<rparr>, Inr 5)
   \<and> LatestFinalizedNumber demoState0 = None
   \<and> LatestFinalizedNumber demoState0 \<noteq> Some (NewInt_int64 5)"
  using demo_run0 demo_select1 by (simp add: demoState0_def)

subsection \<open>C3: the first proof-of-stake block number\<close>

text \<open>
  C3. \<open>FirstPoSBlockNumber\<close> is nil in a new orchestrator. Once it holds a value, no
  run of operations changes it. A single operation changes the field only if it is a
  production cycle that finds it nil, and then the value written is the number of the
  finalized header plus one. A cycle that produces a block leaves the field set, so the
  first such cycle after the transition is the one that writes it.
\<close>

theorem FirstPoSBlockNumber_written_once:
  "FirstPoSBlockNumber NewCLMocker = None
   \<and> (FirstPoSBlockNumber cl = Some n \<longrightarrow>
        FirstPoSBlockNumber (snd (run R ops (t, cl))) = Some n)
   \<and> (FirstPoSBlockNumber (snd (step R (t, cl) op)) \<noteq> FirstPoSBlockNumber cl \<longrightarrow>
        FirstPoSBlockNumber cl = None
        \<and> (\<exists>fuel lfh. op = OpMinePOSBlock fuel \<and> LatestFinalizedHeader cl = Some lfh
              \<and> FirstPoSBlockNumber (snd (step R (t, cl) op)) =
                  Some (NewInt_int64 (Uint64 (Number lfh) + 1))))
   \<and> (minePOSBlock R fuel t cl = (t', cl', Inr (BlockProduced tm)) \<longrightarrow>
        FirstPoSBlockNumber cl' \<noteq> None)"
proof -
  have a: "FirstPoSBlockNumber NewCLMocker = None" by (simp add: NewCLMocker_def)
  have d: "FirstPoSBlockNumber cl' \<noteq> None"
    if m: "minePOSBlock R fuel t cl = (t', cl', Inr (BlockProduced tm))"
  proof -
    from minePOSBlock_produced [OF m] obtain t3 cl3 r k where
      fin: "finishCycle R t3 cl3 r k = (t', cl', Inr tm)" by blast
    from finishCycle_Inr [OF fin] obtain lfh where "LatestFinalizedHeader cl3 = Some lfh" by blast
    with finishCycle_FirstPoSBlockNumber [of R t3 cl3 r k] fin show ?thesis
      by (auto split: if_splits)
  qed
  from a run_FirstPoSBlockNumber [of cl n R ops t] step_FirstPoSBlockNumber [of R t cl op] d
  show ?thesis by blast
qed

theorem FirstPoSBlockNumber_written_once_witness:
  "FirstPoSBlockNumber demoState1 = Some 6
   \<and> FirstPoSBlockNumber
        (snd (run demoEnv
               [OpMinePOSBlock (Suc 0), OpStopPoSBlockProduction, OpRemoveEngineClient 11,
                OpMinePOSBlock (Suc 0)]
               (demoTrace1, demoState1))) = Some 6
   \<and> FirstPoSBlockNumber (snd (step demoEnv (demoTrace0, demoState0) (OpMinePOSBlock (Suc 0))))
       \<noteq> FirstPoSBlockNumber demoState0
   \<and> FirstPoSBlockNumber demoState0 = None
   \<and> minePOSBlock demoEnv (Suc 0) demoTrace0 demoState0 =
       (demoTrace1, demoState1, Inr (BlockProduced TimerMinePOSBlock))
   \<and> FirstPoSBlockNumber demoState1 \<noteq> None"
proof -
  have a: "FirstPoSBlockNumber demoState1 = Some 6" by (simp add: demoState1_def)
  have b: "FirstPoSBlockNumber demoState0 = None" by (simp add: demoState0_def)
  have c: "step demoEnv (demoTrace0, demoState0) (OpMinePOSBlock (Suc 0)) = (demoTrace1, demoState1)"
    by (simp add: demo_cycle1 del: selectProposer.simps)
  from FirstPoSBlockNumber_written_once
    [where cl = demoState1 and n = 6 and R = demoEnv and t = demoTrace1
       and ops = "[OpMinePOSBlock (Suc 0), OpStopPoSBlockProduction, OpRemoveEngineClient 11,
                   OpMinePOSBlock (Suc 0)]"] a
  have d: "FirstPoSBlockNumber
        (snd (run demoEnv
               [OpMinePOSBlock (Suc 0), OpStopPoSBlockProduction, OpRemoveEngineClient 11,
                OpMinePOSBlock (Suc 0)]
               (demoTrace1, demoState1))) = Some 6"
    by blast
  from a b c d demo_cycle1 show ?thesis by simp
qed

subsection \<open>C4: the history maps\<close>




subsection \<open>C5: one outcome per client\<close>

text \<open>
  C5. \<^verbatim>\<open>broadcastExecutePayload\<close> and \<^verbatim>\<open>broadcastForkchoiceUpdated\<close> call every
  registered client, in list order, whatever the earlier clients answered: the calls
  made are exactly one per client. The outcome list has one entry per client; entry
  \<open>i\<close> holds the answer of client \<open>i\<close> to its call, either the response with no
  error or the error with no response.
\<close>

theorem broadcast_outcome_per_client:
  "fst (broadcastExecutePayload R t cl payload) =
     t @ map (\<lambda>ec. CallExecutePayloadV1 ec payload) (EngineClients cl)
   \<and> length (snd (broadcastExecutePayload R t cl payload)) = length (EngineClients cl)
   \<and> (i < length (EngineClients cl) \<longrightarrow>
        snd (broadcastExecutePayload R t cl payload) ! i =
          (case EngineExecutePayloadV1 R
                  (t @ map (\<lambda>ec. CallExecutePayloadV1 ec payload) (take i (EngineClients cl)))
                  (EngineClients cl ! i) payload of
             Inl e \<Rightarrow> \<lparr>ExecutePayloadResponse = None, ExecError = Some e\<rparr>
           | Inr r \<Rightarrow> \<lparr>ExecutePayloadResponse = Some r, ExecError = None\<rparr>))
   \<and> fst (broadcastForkchoiceUpdated R t cl fcstate payloadAttr) =
       t @ map (\<lambda>ec. CallForkchoiceUpdatedV1 ec fcstate payloadAttr) (EngineClients cl)
   \<and> length (snd (broadcastForkchoiceUpdated R t cl fcstate payloadAttr)) = length (EngineClients cl)
   \<and> (i < length (EngineClients cl) \<longrightarrow>
        snd (broadcastForkchoiceUpdated R t cl fcstate payloadAttr) ! i =
          (case EngineForkchoiceUpdatedV1 R
                  (t @ map (\<lambda>ec. CallForkchoiceUpdatedV1 ec fcstate payloadAttr) (take i (EngineClients cl)))
                  (EngineClients cl ! i) fcstate payloadAttr of
             Inl e \<Rightarrow> \<lparr>ForkchoiceResponse = None, Error = Some e\<rparr>
           | Inr r \<Rightarrow> \<lparr>ForkchoiceResponse = Some r, Error = None\<rparr>))"
proof -
  let ?n = "length (EngineClients cl)"
  have e: "snd (broadcastExecutePayload R t cl payload) ! i =
          (case EngineExecutePayloadV1 R
                  (t @ map (\<lambda>ec. CallExecutePayloadV1 ec payload) (take i (EngineClients cl)))
                  (EngineClients cl ! i) payload of
             Inl e \<Rightarrow> \<lparr>ExecutePayloadResponse = None, ExecError = Some e\<rparr>
           | Inr r \<Rightarrow> \<lparr>ExecutePayloadResponse = Some r, ExecError = None\<rparr>)"
    if i: "i < ?n"
    using i bep_loop_nth [of 0 "EngineClients cl"
        "replicate ?n \<lparr>ExecutePayloadResponse = None, ExecError = None\<rparr>" i R payload t]
    by (simp add: broadcastExecutePayload_def split: sum.splits)
  have f: "snd (broadcastForkchoiceUpdated R t cl fcstate payloadAttr) ! i =
          (case EngineForkchoiceUpdatedV1 R
                  (t @ map (\<lambda>ec. CallForkchoiceUpdatedV1 ec fcstate payloadAttr) (take i (EngineClients cl)))
                  (EngineClients cl ! i) fcstate payloadAttr of
             Inl e \<Rightarrow> \<lparr>ForkchoiceResponse = None, Error = Some e\<rparr>
           | Inr r \<Rightarrow> \<lparr>ForkchoiceResponse = Some r, Error = None\<rparr>)"
    if i: "i < ?n"
    using i bfu_loop_nth [of 0 "EngineClients cl"
        "replicate ?n \<lparr>ForkchoiceResponse = None, Error = None\<rparr>" i R fcstate payloadAttr t]
    by (simp add: broadcastForkchoiceUpdated_def split: sum.splits)
  have le: "length (snd (broadcastExecutePayload R t cl payload)) = ?n"
    by (simp add: broadcastExecutePayload_def bep_loop_length)
  have lf: "length (snd (broadcastForkchoiceUpdated R t cl fcstate payloadAttr)) = ?n"
    by (simp add: broadcastForkchoiceUpdated_def bfu_loop_length)
  show ?thesis
    using e f le lf
    by (simp add: broadcastExecutePayload_trace broadcastForkchoiceUpdated_trace)
qed

theorem broadcast_outcome_per_client_witness:
  "(1::nat) < length (EngineClients (demoState0\<lparr>EngineClients := [11, 19, 12]\<rparr>))
   \<and> fst (broadcastExecutePayload demoEnv [] (demoState0\<lparr>EngineClients := [11, 19, 12]\<rparr>)
           \<lparr>PayloadNumber = 6, BlockHash = 4102\<rparr>) =
       [CallExecutePayloadV1 11 \<lparr>PayloadNumber = 6, BlockHash = 4102\<rparr>,
        CallExecutePayloadV1 19 \<lparr>PayloadNumber = 6, BlockHash = 4102\<rparr>,
        CallExecutePayloadV1 12 \<lparr>PayloadNumber = 6, BlockHash = 4102\<rparr>]
   \<and> length (snd (broadcastExecutePayload demoEnv [] (demoState0\<lparr>EngineClients := [11, 19, 12]\<rparr>)
           \<lparr>PayloadNumber = 6, BlockHash = 4102\<rparr>)) = 3
   \<and> snd (broadcastExecutePayload demoEnv [] (demoState0\<lparr>EngineClients := [11, 19, 12]\<rparr>)
           \<lparr>PayloadNumber = 6, BlockHash = 4102\<rparr>) ! 1 =
       \<lparr>ExecutePayloadResponse = None, ExecError = Some ''connection refused''\<rparr>
   \<and> snd (broadcastExecutePayload demoEnv [] (demoState0\<lparr>EngineClients := [11, 19, 12]\<rparr>)
           \<lparr>PayloadNumber = 6, BlockHash = 4102\<rparr>) ! 2 =
       \<lparr>ExecutePayloadResponse = Some \<lparr>ExecStatus = ''VALID'', LatestValidHash = 4102\<rparr>,
        ExecError = None\<rparr>
   \<and> snd (broadcastForkchoiceUpdated demoEnv [] (demoState0\<lparr>EngineClients := [11, 19, 12]\<rparr>)
           \<lparr>HeadBlockHash = 4102, SafeBlockHash = 4101, FinalizedBlockHash = 4101\<rparr> None) ! 1 =
       \<lparr>ForkchoiceResponse = None, Error = Some ''connection refused''\<rparr>
   \<and> snd (broadcastForkchoiceUpdated demoEnv [] (demoState0\<lparr>EngineClients := [11, 19, 12]\<rparr>)
           \<lparr>HeadBlockHash = 4102, SafeBlockHash = 4101, FinalizedBlockHash = 4101\<rparr> None) ! 2 =
       \<lparr>ForkchoiceResponse = Some \<lparr>Status = ''SUCCESS'', PayloadID = None\<rparr>, Error = None\<rparr>"
  using broadcast_outcome_per_client
    [where i = 1 and cl = "demoState0\<lparr>EngineClients := [11, 19, 12]\<rparr>" and R = demoEnv
       and t = "[]" and payload = "\<lparr>PayloadNumber = 6, BlockHash = 4102\<rparr>"
       and fcstate = "\<lparr>HeadBlockHash = 4102, SafeBlockHash = 4101, FinalizedBlockHash = 4101\<rparr>"
       and payloadAttr = None]
    broadcast_outcome_per_client
    [where i = 2 and cl = "demoState0\<lparr>EngineClients := [11, 19, 12]\<rparr>" and R = demoEnv
       and t = "[]" and payload = "\<lparr>PayloadNumber = 6, BlockHash = 4102\<rparr>"
       and fcstate = "\<lparr>HeadBlockHash = 4102, SafeBlockHash = 4101, FinalizedBlockHash = 4101\<rparr>"
       and payloadAttr = None]
  by (simp add: demoEnv_def)

subsection \<open>C6: a detector tick with no client\<close>

text \<open>
  C6. When \<^verbatim>\<open>checkTTD\<close> runs while no client is registered, it makes no call, leaves
  every field of the orchestrator as it was, ends without \<open>Fatalf\<close> or panic, and sets
  the timer for its own next tick.
\<close>

theorem checkTTD_no_clients:
  "EngineClients cl = [] \<Longrightarrow> checkTTD R t cl = (t, cl, Inr TimerCheckTTD)"
  by (simp add: checkTTD_def)

theorem checkTTD_no_clients_witness:
  "EngineClients NewCLMocker = []
   \<and> checkTTD demoEnv [] NewCLMocker = ([], NewCLMocker, Inr TimerCheckTTD)"
  using checkTTD_no_clients [of NewCLMocker demoEnv "[]"]
  by (simp add: NewCLMocker_def)

subsection \<open>C7: unregistering a client\<close>

text \<open>
  C7. \<^verbatim>\<open>RemoveEngineClient\<close> compares handles by identity. When the handle is in the
  list, the element at its first position is overwritten with the last element and the
  list loses its last slot: the result is one shorter and holds the same handles with
  one occurrence of the removed one taken out, in an order that may differ. When the
  handle is not in the list, nothing changes. No other field is touched and there is no
  error result.
\<close>

theorem RemoveEngineClient_swap_with_last:
  "(removeEngineClient \<in> set (EngineClients cl) \<longrightarrow>
      length (takeWhile (\<lambda>x. x \<noteq> removeEngineClient) (EngineClients cl)) < length (EngineClients cl)
      \<and> EngineClients cl ! length (takeWhile (\<lambda>x. x \<noteq> removeEngineClient) (EngineClients cl))
          = removeEngineClient
      \<and> (\<forall>j < length (takeWhile (\<lambda>x. x \<noteq> removeEngineClient) (EngineClients cl)).
            EngineClients cl ! j \<noteq> removeEngineClient)
      \<and> EngineClients (RemoveEngineClient cl removeEngineClient) =
          butlast ((EngineClients cl)
            [length (takeWhile (\<lambda>x. x \<noteq> removeEngineClient) (EngineClients cl)) := last (EngineClients cl)])
      \<and> length (EngineClients (RemoveEngineClient cl removeEngineClient)) = length (EngineClients cl) - 1
      \<and> mset (EngineClients (RemoveEngineClient cl removeEngineClient)) =
          mset (EngineClients cl) - {# removeEngineClient #})
   \<and> (removeEngineClient \<notin> set (EngineClients cl) \<longrightarrow> RemoveEngineClient cl removeEngineClient = cl)
   \<and> RemoveEngineClient cl removeEngineClient =
       cl\<lparr>EngineClients := EngineClients (RemoveEngineClient cl removeEngineClient)\<rparr>"
proof -
  let ?cs = "EngineClients cl"
  let ?c = removeEngineClient
  let ?i = "length (takeWhile (\<lambda>x. x \<noteq> ?c) ?cs)"
  have absent: "?c \<notin> set ?cs \<Longrightarrow> RemoveEngineClient cl ?c = cl"
    by (simp add: RemoveEngineClient_def findClient_0)
  have frame: "RemoveEngineClient cl ?c = cl\<lparr>EngineClients := EngineClients (RemoveEngineClient cl ?c)\<rparr>"
    by (simp add: RemoveEngineClient_def Let_def)
  have present: "?i < length ?cs \<and> ?cs ! ?i = ?c \<and> (\<forall>j < ?i. ?cs ! j \<noteq> ?c)
      \<and> EngineClients (RemoveEngineClient cl ?c) = butlast (?cs[?i := last ?cs])
      \<and> length (EngineClients (RemoveEngineClient cl ?c)) = length ?cs - 1
      \<and> mset (EngineClients (RemoveEngineClient cl ?c)) = mset ?cs - {# ?c #}"
    if mem: "?c \<in> set ?cs"
  proof -
    note fi = first_index [OF mem]
    have ne: "?cs \<noteq> []" using mem by auto
    have r: "EngineClients (RemoveEngineClient cl ?c) =
               take (length ?cs - 1) (?cs[?i := ?cs ! (length ?cs - 1)])"
      using mem by (simp add: RemoveEngineClient_def findClient_0 Let_def)
    have b: "take (length ?cs - 1) (?cs[?i := ?cs ! (length ?cs - 1)]) = butlast (?cs[?i := last ?cs])"
      using ne by (simp add: butlast_conv_take last_conv_nth)
    have m: "mset (take (length ?cs - 1) (?cs[?i := ?cs ! (length ?cs - 1)])) = mset ?cs - {# ?c #}"
      using mset_swap_remove [OF fi(1)] fi(2) by simp
    show ?thesis using fi r b m by simp
  qed
  show ?thesis using absent frame present by blast
qed

theorem RemoveEngineClient_swap_with_last_witness:
  "12 \<in> set (EngineClients (NewCLMocker\<lparr>EngineClients := [11, 12, 13, 14]\<rparr>))
   \<and> EngineClients (RemoveEngineClient (NewCLMocker\<lparr>EngineClients := [11, 12, 13, 14]\<rparr>) 12)
       = [11, 14, 13]
   \<and> 19 \<notin> set (EngineClients (NewCLMocker\<lparr>EngineClients := [11, 12, 13, 14]\<rparr>))
   \<and> RemoveEngineClient (NewCLMocker\<lparr>EngineClients := [11, 12, 13, 14]\<rparr>) 19
       = NewCLMocker\<lparr>EngineClients := [11, 12, 13, 14]\<rparr>"
  using RemoveEngineClient_swap_with_last [of 12 "NewCLMocker\<lparr>EngineClients := [11, 12, 13, 14]\<rparr>"]
    RemoveEngineClient_swap_with_last [of 19 "NewCLMocker\<lparr>EngineClients := [11, 12, 13, 14]\<rparr>"]
  by simp

subsection \<open>C8: the payload attributes of a build request\<close>

text \<open>
  C8. The build request carries payload attributes made at that point of the cycle: the
  timestamp is \<open>Time\<close> of \<open>LatestFinalizedHeader\<close> plus one (\<^verbatim>\<open>uint64\<close> addition),
  the random value is the one read from the random source immediately before the
  request, and the suggested fee recipient is \<open>NextFeeRecipient\<close> as it is then. In a
  cycle that produces a block the random source is read exactly once, and exactly one
  forkchoice call has attributes: the one to the proposer, with these attributes and the
  forkchoice state left by the previous cycle.
\<close>

theorem payload_attributes_fresh:
  "(LatestFinalizedHeader cl = Some lfh \<and> NextBlockProducer cl = Some p \<longrightarrow>
      (\<exists>rest.
          fst (requestBuild R t cl) =
            t @ [RandRead,
                 CallForkchoiceUpdatedV1 p (LatestForkchoice cl)
                   (Some \<lparr>Timestamp = Time lfh + 1, Random = randBytes R t,
                          SuggestedFeeRecipient = NextFeeRecipient cl\<rparr>)] @ rest
          \<and> filter isBuildRequest rest = []))
   \<and> (minePOSBlock R fuel t cl = (t', cl', Inr (BlockProduced tm)) \<longrightarrow>
      (\<exists>sel rest h q.
          LatestFinalizedHeader cl = Some h \<and> NextBlockProducer cl' = Some q
          \<and> t' = t @ sel
               @ [RandRead,
                  CallForkchoiceUpdatedV1 q (LatestForkchoice cl)
                    (Some \<lparr>Timestamp = Time h + 1, Random = randBytes R (t @ sel),
                           SuggestedFeeRecipient = NextFeeRecipient cl\<rparr>)]
               @ rest
          \<and> RandRead \<notin> set sel \<and> RandRead \<notin> set rest
          \<and> filter isBuildRequest sel = [] \<and> filter isBuildRequest rest = []))"
proof -
  have a: "\<exists>rest.
          fst (requestBuild R t cl) =
            t @ [RandRead,
                 CallForkchoiceUpdatedV1 p (LatestForkchoice cl)
                   (Some \<lparr>Timestamp = Time lfh + 1, Random = randBytes R t,
                          SuggestedFeeRecipient = NextFeeRecipient cl\<rparr>)] @ rest
          \<and> filter isBuildRequest rest = []"
    if "LatestFinalizedHeader cl = Some lfh" "NextBlockProducer cl = Some p"
    using requestBuild_call [OF that, of R t] filter_build_request by blast
  have b: "\<exists>sel rest h q.
          LatestFinalizedHeader cl = Some h \<and> NextBlockProducer cl' = Some q
          \<and> t' = t @ sel
               @ [RandRead,
                  CallForkchoiceUpdatedV1 q (LatestForkchoice cl)
                    (Some \<lparr>Timestamp = Time h + 1, Random = randBytes R (t @ sel),
                           SuggestedFeeRecipient = NextFeeRecipient cl\<rparr>)]
               @ rest
          \<and> RandRead \<notin> set sel \<and> RandRead \<notin> set rest
          \<and> filter isBuildRequest sel = [] \<and> filter isBuildRequest rest = []"
    if m: "minePOSBlock R fuel t cl = (t', cl', Inr (BlockProduced tm))"
  proof (rule minePOSBlock_shape [OF m], goal_cases)
    case (1 sel h q pid post)
    let ?rest = "CallGetPayloadV1 q pid
          # map (\<lambda>ec. CallExecutePayloadV1 ec (LatestExecutedPayload cl')) (EngineClients cl)
          @ map (\<lambda>ec. CallForkchoiceUpdatedV1 ec
                   ((LatestForkchoice cl)\<lparr>HeadBlockHash := BlockHash (LatestExecutedPayload cl')\<rparr>) None)
              (EngineClients cl)
          @ map (\<lambda>ec. CallForkchoiceUpdatedV1 ec
                   ((LatestForkchoice cl)\<lparr>HeadBlockHash := BlockHash (LatestExecutedPayload cl'),
                                          SafeBlockHash := BlockHash (LatestExecutedPayload cl')\<rparr>) None)
              (EngineClients cl)
          @ map (\<lambda>ec. CallForkchoiceUpdatedV1 ec
                   ((LatestForkchoice cl)\<lparr>HeadBlockHash := BlockHash (LatestExecutedPayload cl'),
                                          SafeBlockHash := BlockHash (LatestExecutedPayload cl'),
                                          FinalizedBlockHash := BlockHash (LatestExecutedPayload cl')\<rparr>) None)
              (EngineClients cl)
          @ post"
    have t': "t' = t @ sel
               @ [RandRead,
                  CallForkchoiceUpdatedV1 q (LatestForkchoice cl)
                    (Some \<lparr>Timestamp = Time h + 1, Random = randBytes R (t @ sel),
                           SuggestedFeeRecipient = NextFeeRecipient cl\<rparr>)]
               @ ?rest"
      using 1(4) by simp
    have r1: "RandRead \<notin> set ?rest"
      using 1(14) by auto
    have r2: "filter isBuildRequest ?rest = []"
      using filter_build_request [OF 1(7)]
      by (simp add: filter_build_request_map_exec filter_build_request_map_fcu)
    from 1(1) 1(3) t' 1(6) r1 filter_build_request [OF 1(5)] r2
    show ?case by blast
  qed
  from a b show ?thesis by blast
qed

theorem payload_attributes_fresh_witness:
  "LatestFinalizedHeader (demoState0\<lparr>NextBlockProducer := Some 11, NextFeeRecipient := 4078\<rparr>)
     = Some \<lparr>Number = 5, Time = 1060, Hash = 4101\<rparr>
   \<and> NextBlockProducer (demoState0\<lparr>NextBlockProducer := Some 11, NextFeeRecipient := 4078\<rparr>)
     = Some 11
   \<and> take 2 (fst (requestBuild demoEnv []
         (demoState0\<lparr>NextBlockProducer := Some 11, NextFeeRecipient := 4078\<rparr>))) =
       [RandRead,
        CallForkchoiceUpdatedV1 11
          \<lparr>HeadBlockHash = 4101, SafeBlockHash = 4101, FinalizedBlockHash = 4101\<rparr>
          (Some \<lparr>Timestamp = 1061, Random = 7000, SuggestedFeeRecipient = 4078\<rparr>)]
   \<and> minePOSBlock demoEnv (Suc 0) demoTrace0 demoState0 =
       (demoTrace1, demoState1, Inr (BlockProduced TimerMinePOSBlock))
   \<and> filter isBuildRequest (drop (length demoTrace0) demoTrace1) =
       [CallForkchoiceUpdatedV1 11
          \<lparr>HeadBlockHash = 4101, SafeBlockHash = 4101, FinalizedBlockHash = 4101\<rparr>
          (Some \<lparr>Timestamp = 1061, Random = 7008, SuggestedFeeRecipient = 0\<rparr>)]"
proof -
  let ?cl = "demoState0\<lparr>NextBlockProducer := Some 11, NextFeeRecipient := 4078\<rparr>"
  have h: "LatestFinalizedHeader ?cl = Some \<lparr>Number = 5, Time = 1060, Hash = 4101\<rparr>"
    "NextBlockProducer ?cl = Some 11"
    by (simp_all add: demoState0_def)
  from payload_attributes_fresh
    [where cl = ?cl and lfh = "\<lparr>Number = 5, Time = 1060, Hash = 4101\<rparr>" and p = 11
       and R = demoEnv and t = "[]"] h
  obtain rest where r: "fst (requestBuild demoEnv [] ?cl) =
      [] @ [RandRead,
            CallForkchoiceUpdatedV1 11 (LatestForkchoice ?cl)
              (Some \<lparr>Timestamp = Time \<lparr>Number = 5, Time = 1060, Hash = 4101\<rparr> + 1,
                     Random = randBytes demoEnv [],
                     SuggestedFeeRecipient = NextFeeRecipient ?cl\<rparr>)] @ rest"
    by blast
  have a: "take 2 (fst (requestBuild demoEnv [] ?cl)) =
       [RandRead,
        CallForkchoiceUpdatedV1 11
          \<lparr>HeadBlockHash = 4101, SafeBlockHash = 4101, FinalizedBlockHash = 4101\<rparr>
          (Some \<lparr>Timestamp = 1061, Random = 7000, SuggestedFeeRecipient = 4078\<rparr>)]"
    unfolding r by (simp add: demoState0_def demoEnv_def)
  have b: "filter isBuildRequest (drop (length demoTrace0) demoTrace1) =
       [CallForkchoiceUpdatedV1 11
          \<lparr>HeadBlockHash = 4101, SafeBlockHash = 4101, FinalizedBlockHash = 4101\<rparr>
          (Some \<lparr>Timestamp = 1061, Random = 7008, SuggestedFeeRecipient = 0\<rparr>)]"
    by (simp add: demoTrace1_def)
  from h a b demo_cycle1 show ?thesis by simp
qed

subsection \<open>C9: the fee recipient is set before the transaction is sent\<close>

text \<open>
  C9. When \<^verbatim>\<open>setNextFeeRecipient\<close> is called for the current proposer with a
  transaction and sending the transaction fails, the function returns that error, and
  \<open>NextFeeRecipient\<close> already holds the caller's value: the assignment comes before the
  send and is not undone.
\<close>

theorem setNextFeeRecipient_not_atomic:
  "NextBlockProducer cl = Some p \<Longrightarrow> Equals R p c \<Longrightarrow> SendTransaction R t c x = Some e \<Longrightarrow>
   setNextFeeRecipient R t cl feeRecipient (Some c) (Some x) =
     (t @ [CallSendTransaction c x], cl\<lparr>NextFeeRecipient := feeRecipient\<rparr>, Inr (FeeReturned (Inl e)))"
  by (simp add: setNextFeeRecipient_def)

theorem setNextFeeRecipient_not_atomic_witness:
  "NextBlockProducer demoState1 = Some 11
   \<and> Equals demoEnv 11 11
   \<and> SendTransaction demoEnv demoTrace1 11 0 = Some ''nonce too low''
   \<and> NextFeeRecipient demoState1 = 0
   \<and> setNextFeeRecipient demoEnv demoTrace1 demoState1 4078 (Some 11) (Some 0) =
       (demoTrace1 @ [CallSendTransaction 11 0], demoState1\<lparr>NextFeeRecipient := 4078\<rparr>,
        Inr (FeeReturned (Inl ''nonce too low'')))"
proof -
  have p: "NextBlockProducer demoState1 = Some 11" by (simp add: demoState1_def)
  have e: "Equals demoEnv 11 11" by (simp add: demoEnv_def)
  have s: "SendTransaction demoEnv demoTrace1 11 0 = Some ''nonce too low''"
    by (simp add: demoEnv_def)
  have f: "NextFeeRecipient demoState1 = 0" by (simp add: demoState1_def)
  from setNextFeeRecipient_not_atomic [OF p e s, of 4078] p e s f show ?thesis by simp
qed

subsection \<open>C10: the proposer draw and the empty registry\<close>

text \<open>
  C10. When the stop flag is down and at least one client is registered, the proposer
  draw of \<^verbatim>\<open>minePOSBlock\<close> is an index into the client list: the invocation ends
  neither in the panic of \<^verbatim>\<open>rand.Intn\<close> nor in an index panic, and the proposer it
  leaves in \<open>NextBlockProducer\<close> is a registered client. There is no guard for an empty
  registry: with the stop flag down and no client registered, the invocation panics in
  \<^verbatim>\<open>rand.Intn\<close> before any call is made and with no field changed.
\<close>

theorem proposer_draw_in_bounds:
  "\<not> BlockProductionMustStop cl \<Longrightarrow>
   (EngineClients cl \<noteq> [] \<longrightarrow>
      (\<exists>i. Intn R t (length (EngineClients cl)) = Some i \<and> i < length (EngineClients cl))
      \<and> snd (snd (minePOSBlock R (Suc fuel) t cl)) \<noteq> Inl PanicIntn
      \<and> snd (snd (minePOSBlock R (Suc fuel) t cl)) \<noteq> Inl PanicIndex
      \<and> (\<exists>p \<in> set (EngineClients cl).
            NextBlockProducer (fst (snd (minePOSBlock R (Suc fuel) t cl))) = Some p))
   \<and> (EngineClients cl = [] \<longrightarrow> minePOSBlock R (Suc fuel) t cl = (t, cl, Inl PanicIntn))"
proof -
  assume go: "\<not> BlockProductionMustStop cl"
  have empty: "minePOSBlock R (Suc fuel) t cl = (t, cl, Inl PanicIntn)" if "EngineClients cl = []"
    using go that by (simp add: minePOSBlock_def Intn_def)
  have nonempty: "(\<exists>i. Intn R t (length (EngineClients cl)) = Some i \<and> i < length (EngineClients cl))
      \<and> snd (snd (minePOSBlock R (Suc fuel) t cl)) \<noteq> Inl PanicIntn
      \<and> snd (snd (minePOSBlock R (Suc fuel) t cl)) \<noteq> Inl PanicIndex
      \<and> (\<exists>p \<in> set (EngineClients cl).
            NextBlockProducer (fst (snd (minePOSBlock R (Suc fuel) t cl))) = Some p)"
    if ne: "EngineClients cl \<noteq> []"
  proof -
    have "\<exists>i. Intn R t (length (EngineClients cl)) = Some i \<and> i < length (EngineClients cl)"
      using ne by (simp add: Intn_def)
    moreover note minePOSBlock_no_index_panic [OF ne, of R "Suc fuel" t]
    moreover have "\<exists>p \<in> set (EngineClients cl).
            NextBlockProducer (fst (snd (minePOSBlock R (Suc fuel) t cl))) = Some p"
      using selectProposer_producer [OF ne, of "Suc fuel" R t]
      by (simp only: minePOSBlock_NextBlockProducer [OF go]) simp
    ultimately show ?thesis by blast
  qed
  from empty nonempty show ?thesis by blast
qed

theorem proposer_draw_in_bounds_witness:
  "\<not> BlockProductionMustStop demoState0
   \<and> EngineClients demoState0 \<noteq> []
   \<and> Intn demoEnv demoTrace0 (length (EngineClients demoState0)) = Some 0
   \<and> snd (snd (minePOSBlock demoEnv (Suc 0) demoTrace0 demoState0)) \<noteq> Inl PanicIntn
   \<and> snd (snd (minePOSBlock demoEnv (Suc 0) demoTrace0 demoState0)) \<noteq> Inl PanicIndex
   \<and> NextBlockProducer (fst (snd (minePOSBlock demoEnv (Suc 0) demoTrace0 demoState0))) = Some 11
   \<and> \<not> BlockProductionMustStop NewCLMocker
   \<and> EngineClients NewCLMocker = []
   \<and> minePOSBlock demoEnv (Suc 0) [] NewCLMocker = ([], NewCLMocker, Inl PanicIntn)"
proof -
  have g0: "\<not> BlockProductionMustStop demoState0" and n0: "EngineClients demoState0 \<noteq> []"
    by (simp_all add: demoState0_def)
  have g1: "\<not> BlockProductionMustStop NewCLMocker" and n1: "EngineClients NewCLMocker = []"
    by (simp_all add: NewCLMocker_def)
  have i: "Intn demoEnv demoTrace0 (length (EngineClients demoState0)) = Some 0"
    by (simp add: Intn_def demoEnv_def demoState0_def length_demoTrace0 mod_two_clients)
  have p: "NextBlockProducer (fst (snd (minePOSBlock demoEnv (Suc 0) demoTrace0 demoState0))) = Some 11"
    by (simp add: demo_cycle1 demoState1_def del: selectProposer.simps)
  from proposer_draw_in_bounds [OF g0, of demoEnv demoTrace0 0]
    proposer_draw_in_bounds [OF g1, of demoEnv "[]" 0] g0 n0 g1 n1 i p
  show ?thesis by simp
qed

end
